theory Spec2Isabelle
  imports Complex_Main "HOL-Library.Sublist"
begin

section \<open>Tensors and the library operations the source calls\<close>

text \<open>
  The source, \<^verbatim>\<open>gan_utils.py\<close>, is glue around torch, numpy and skimage. A tensor (and an
  ndarray alike) is modelled by its shape and its values in row-major order. A value is a
  float: a finite number, one of the two infinities, or nan. Finite numbers are exact
  reals, so that the rounding and the overflow of float arithmetic are not modelled; what
  the operations do with the infinities and with nan is. A tensor is well formed when it
  holds as many values as its shape asks for.

  Every exception the source can raise is a value of \<open>error\<close>.
\<close>

datatype error =
  IndexError | TypeError | ValueError | AttributeError | RuntimeError | IOError

datatype fval = Fin real | PInf | NInf | NaN

text \<open>
  Float arithmetic on these values: nan spreads through every operation, opposite
  infinities cancel to nan, and so do \<open>0 * inf\<close> and \<open>0 / 0\<close>. \<open>fscale\<close> and \<open>fdiv\<close> multiply
  and divide by a finite Python number; \<open>fclamp\<close> is \<^verbatim>\<open>torch.clamp\<close> on one value, which
  passes nan through.
\<close>

fun fneg :: "fval \<Rightarrow> fval" where
  "fneg (Fin a) = Fin (- a)"
| "fneg PInf = NInf"
| "fneg NInf = PInf"
| "fneg NaN = NaN"

fun fadd :: "fval \<Rightarrow> fval \<Rightarrow> fval" where
  "fadd (Fin a) (Fin b) = Fin (a + b)"
| "fadd NaN y = NaN"
| "fadd x NaN = NaN"
| "fadd PInf NInf = NaN"
| "fadd NInf PInf = NaN"
| "fadd PInf y = PInf"
| "fadd x PInf = PInf"
| "fadd NInf y = NInf"
| "fadd x NInf = NInf"

definition fsub :: "fval \<Rightarrow> fval \<Rightarrow> fval" where
  "fsub x y = fadd x (fneg y)"

fun fabs :: "fval \<Rightarrow> fval" where
  "fabs (Fin a) = Fin \<bar>a\<bar>"
| "fabs PInf = PInf"
| "fabs NInf = PInf"
| "fabs NaN = NaN"

fun fscale :: "fval \<Rightarrow> real \<Rightarrow> fval" where
  "fscale (Fin a) c = Fin (a * c)"
| "fscale PInf c = (if 0 < c then PInf else if c < 0 then NInf else NaN)"
| "fscale NInf c = (if 0 < c then NInf else if c < 0 then PInf else NaN)"
| "fscale NaN c = NaN"

fun fdiv :: "fval \<Rightarrow> real \<Rightarrow> fval" where
  "fdiv (Fin a) c =
     (if c \<noteq> 0 then Fin (a / c)
      else if a = 0 then NaN else if 0 < a then PInf else NInf)"
| "fdiv PInf c = (if c < 0 then NInf else PInf)"
| "fdiv NInf c = (if c < 0 then PInf else NInf)"
| "fdiv NaN c = NaN"

fun fclamp :: "fval \<Rightarrow> real \<Rightarrow> real \<Rightarrow> fval" where
  "fclamp (Fin a) lo hi = Fin (min (max a lo) hi)"
| "fclamp PInf lo hi = Fin hi"
| "fclamp NInf lo hi = Fin lo"
| "fclamp NaN lo hi = NaN"

definition fsum :: "fval list \<Rightarrow> fval" where
  "fsum xs = foldr fadd xs (Fin 0)"

text \<open>
  \<open>is_finite x\<close> says that \<open>x\<close> is a finite number, \<open>in_interval x lo hi\<close> that it is a finite
  number of the interval \<open>[lo, hi]\<close>.
\<close>

fun is_finite :: "fval \<Rightarrow> bool" where
  "is_finite (Fin a) = True"
| "is_finite x = False"


record tensor =
  shape :: "nat list"
  vals :: "fval list"

type_synonym device = "string option"

definition numel :: "nat list \<Rightarrow> nat" where
  "numel shp = prod_list shp"

definition wf_tensor :: "tensor \<Rightarrow> bool" where
  "wf_tensor t = (length (vals t) = numel (shape t))"

text \<open>\<^verbatim>\<open>t.to(device)\<close>: placement only; shape and values stay.\<close>

definition to_device :: "tensor \<Rightarrow> device \<Rightarrow> tensor" where
  "to_device t dev = t"

definition torch_full :: "nat list \<Rightarrow> real \<Rightarrow> tensor" where
  "torch_full shp v = \<lparr>shape = shp, vals = replicate (numel shp) (Fin v)\<rparr>"

definition torch_ones :: "nat list \<Rightarrow> tensor" where
  "torch_ones shp = torch_full shp 1"

text \<open>
  Random draws are inputs of the model. \<^verbatim>\<open>torch.rand(shape)\<close> and \<^verbatim>\<open>torch.randn(shape)\<close>
  fill a fresh tensor from a draw \<open>g\<close>, the value at flat position \<open>j\<close> being the finite
  number \<open>g j\<close>.
\<close>

definition torch_rand :: "nat list \<Rightarrow> (nat \<Rightarrow> real) \<Rightarrow> tensor" where
  "torch_rand shp g = \<lparr>shape = shp, vals = map (\<lambda>j. Fin (g j)) [0..<numel shp]\<rparr>"

definition torch_randn :: "nat list \<Rightarrow> (nat \<Rightarrow> real) \<Rightarrow> tensor" where
  "torch_randn shp g = \<lparr>shape = shp, vals = map (\<lambda>j. Fin (g j)) [0..<numel shp]\<rparr>"

definition mul_scalar :: "tensor \<Rightarrow> real \<Rightarrow> tensor" where
  "mul_scalar t c = t\<lparr>vals := map (\<lambda>x. fscale x c) (vals t)\<rparr>"

definition div_scalar :: "tensor \<Rightarrow> real \<Rightarrow> tensor" where
  "div_scalar t c = t\<lparr>vals := map (\<lambda>x. fdiv x c) (vals t)\<rparr>"

definition neg :: "tensor \<Rightarrow> tensor" where
  "neg t = t\<lparr>vals := map fneg (vals t)\<rparr>"

definition tensor_abs :: "tensor \<Rightarrow> tensor" where
  "tensor_abs t = t\<lparr>vals := map fabs (vals t)\<rparr>"

definition torch_clamp :: "tensor \<Rightarrow> real \<Rightarrow> real \<Rightarrow> tensor" where
  "torch_clamp t lo hi = t\<lparr>vals := map (\<lambda>x. fclamp x lo hi) (vals t)\<rparr>"

subsection \<open>Broadcasting\<close>

text \<open>
  torch aligns two shapes at their last dimension; a dimension of size 1 (or a missing
  leading one) is repeated to the size of the other operand. \<open>chunks c n xs\<close> cuts the
  first \<open>n\<close> blocks of \<open>c\<close> values from \<open>xs\<close>; \<open>expand_vals tgt src xs\<close> repeats the values
  \<open>xs\<close> of shape \<open>src\<close> to the shape \<open>tgt\<close> of the same rank.
\<close>

definition chunks :: "nat \<Rightarrow> nat \<Rightarrow> 'a list \<Rightarrow> 'a list list" where
  "chunks c n xs = map (\<lambda>j. take c (drop (j * c) xs)) [0..<n]"

fun expand_vals :: "nat list \<Rightarrow> nat list \<Rightarrow> 'a list \<Rightarrow> 'a list" where
  "expand_vals (t # ts) (s # ss) xs =
     (if s = t then concat (map (expand_vals ts ss) (chunks (numel ss) t xs))
      else concat (replicate t (expand_vals ts ss xs)))"
| "expand_vals ts ss xs = xs"

definition expandable :: "nat list \<Rightarrow> nat list \<Rightarrow> bool" where
  "expandable tgt src =
     (length src \<le> length tgt \<and>
      list_all2 (\<lambda>t s. s = t \<or> s = 1) (drop (length tgt - length src) tgt) src)"

definition expand_to :: "nat list \<Rightarrow> tensor \<Rightarrow> error + fval list" where
  "expand_to tgt t =
     (if expandable tgt (shape t)
      then Inr (expand_vals tgt (replicate (length tgt - length (shape t)) 1 @ shape t) (vals t))
      else Inl RuntimeError)"

text \<open>
  In-place \<^verbatim>\<open>a += b\<close> and \<^verbatim>\<open>a -= b\<close>: \<open>b\<close> is expanded to the shape of \<open>a\<close>, which stays;
  torch raises when \<open>b\<close> cannot be expanded to it.
\<close>

definition iadd :: "tensor \<Rightarrow> tensor \<Rightarrow> error + tensor" where
  "iadd a b =
     (case expand_to (shape a) b of
        Inl e \<Rightarrow> Inl e
      | Inr ys \<Rightarrow> Inr (a\<lparr>vals := map2 fadd (vals a) ys\<rparr>))"

definition isub :: "tensor \<Rightarrow> tensor \<Rightarrow> error + tensor" where
  "isub a b =
     (case expand_to (shape a) b of
        Inl e \<Rightarrow> Inl e
      | Inr ys \<Rightarrow> Inr (a\<lparr>vals := map2 fsub (vals a) ys\<rparr>))"

text \<open>
  Out of place \<^verbatim>\<open>a - b\<close>: both operands are expanded to the common shape. The shapes are
  combined from the last dimension backwards.
\<close>

fun broadcast_rev :: "nat list \<Rightarrow> nat list \<Rightarrow> nat list option" where
  "broadcast_rev [] ys = Some ys"
| "broadcast_rev (x # xs) [] = Some (x # xs)"
| "broadcast_rev (x # xs) (y # ys) =
     (if x = y \<or> y = 1 then map_option ((#) x) (broadcast_rev xs ys)
      else if x = 1 then map_option ((#) y) (broadcast_rev xs ys)
      else None)"

definition broadcast_shapes :: "nat list \<Rightarrow> nat list \<Rightarrow> nat list option" where
  "broadcast_shapes s1 s2 = map_option rev (broadcast_rev (rev s1) (rev s2))"

definition tensor_sub :: "tensor \<Rightarrow> tensor \<Rightarrow> error + tensor" where
  "tensor_sub a b =
     (case broadcast_shapes (shape a) (shape b) of
        None \<Rightarrow> Inl RuntimeError
      | Some shp \<Rightarrow>
          (case expand_to shp a of
             Inl e \<Rightarrow> Inl e
           | Inr xs \<Rightarrow>
               (case expand_to shp b of
                  Inl e \<Rightarrow> Inl e
                | Inr ys \<Rightarrow> Inr \<lparr>shape = shp, vals = map2 fsub xs ys\<rparr>)))"

text \<open>
  \<^verbatim>\<open>t.view(b, -1)\<close>: torch infers the second dimension when \<open>b\<close> is positive and divides
  the number of elements, and raises otherwise. \<^verbatim>\<open>t.mean(1)\<close> of a two-dimensional tensor
  averages each row; the mean of an empty row is \<open>0 / 0\<close>, which is nan.
\<close>

definition view_rows :: "tensor \<Rightarrow> nat \<Rightarrow> error + tensor" where
  "view_rows t b =
     (if 0 < b \<and> numel (shape t) mod b = 0
      then Inr (t\<lparr>shape := [b, numel (shape t) div b]\<rparr>)
      else Inl RuntimeError)"

definition mean_dim1 :: "tensor \<Rightarrow> error + tensor" where
  "mean_dim1 t =
     (case shape t of
        [b, c] \<Rightarrow>
          Inr \<lparr>shape = [b], vals = map (\<lambda>row. fdiv (fsum row) (real c)) (chunks c b (vals t))\<rparr>
      | _ \<Rightarrow> Inl IndexError)"

subsection \<open>Python lists\<close>

text \<open>\<^verbatim>\<open>xs[i]\<close>: a negative index counts from the end; out of range raises.\<close>

definition py_index :: "'a list \<Rightarrow> int \<Rightarrow> error + 'a" where
  "py_index xs i =
     (if 0 \<le> i \<and> i < int (length xs) then Inr (xs ! nat i)
      else if i < 0 \<and> - int (length xs) \<le> i then Inr (xs ! nat (int (length xs) + i))
      else Inl IndexError)"

text \<open>\<^verbatim>\<open>xs[:c]\<close>: a negative bound counts from the end; the slice never raises.\<close>

definition py_slice_upto :: "'a list \<Rightarrow> int \<Rightarrow> 'a list" where
  "py_slice_upto xs c = (if 0 \<le> c then take (nat c) xs else take (length xs - nat (- c)) xs)"

text \<open>\<^verbatim>\<open>int(x)\<close> of a float truncates towards zero.\<close>

definition py_int :: "real \<Rightarrow> int" where
  "py_int x = (if 0 \<le> x then \<lfloor>x\<rfloor> else \<lceil>x\<rceil>)"

section \<open>Label helpers\<close>

text \<open>
  \<^verbatim>\<open>label[idx] = 1 - label[idx]\<close> with an index tensor: the right-hand side is read from
  the label as it was, then written back position by position.
\<close>

definition flip_at :: "tensor \<Rightarrow> nat list \<Rightarrow> error + tensor" where
  "flip_at label idx =
     (if list_all (\<lambda>j. j < length (vals label)) idx
      then Inr (label\<lparr>vals := foldl (\<lambda>acc j. acc[j := fsub (Fin 1) (vals label ! j)])
                                 (vals label) idx\<rparr>)
      else Inl IndexError)"

text \<open>
  \<^verbatim>\<open>get_label(size, real, soft=0.2, noise=False, noise_level=0.1, device=None)\<close>.
  The argument \<^verbatim>\<open>real\<close> is a Python number, an \<^verbatim>\<open>int\<close> such as \<^verbatim>\<open>1\<close> or a \<^verbatim>\<open>float\<close> such as
  \<^verbatim>\<open>1.0\<close>, and \<^verbatim>\<open>torch.full((size,), real)\<close> is called without a dtype: torch infers int64
  from an \<^verbatim>\<open>int\<close> fill value and its float type from a \<^verbatim>\<open>float\<close>. The label is the one tensor
  of the source whose dtype is left to this inference, and the only one for which a dtype
  is tracked: the in-place \<^verbatim>\<open>label -= ...\<close> and \<^verbatim>\<open>label += ...\<close> add a float tensor, which torch
  refuses to cast into an int64 tensor (\<^verbatim>\<open>RuntimeError\<close>).

  \<open>rand_draw\<close> is what \<^verbatim>\<open>torch.rand(size)\<close> returns and \<open>perm_draw\<close> what
  \<^verbatim>\<open>torch.randperm(label.size(0))\<close> returns. \<open>float_mul\<close> is the product of two Python floats,
  which rounds: it decides how many entries \<^verbatim>\<open>int(label.size(0)*noise_level)\<close> flips.
\<close>

datatype py_number = PyInt int | PyFloat real

fun py_value :: "py_number \<Rightarrow> real" where
  "py_value (PyInt n) = real_of_int n"
| "py_value (PyFloat x) = x"

datatype dtype = Int64 | Float32

fun full_dtype :: "py_number \<Rightarrow> dtype" where
  "full_dtype (PyInt n) = Int64"
| "full_dtype (PyFloat x) = Float32"

definition isub_float :: "dtype \<Rightarrow> tensor \<Rightarrow> tensor \<Rightarrow> error + tensor" where
  "isub_float dt a b = (if dt = Int64 then Inl RuntimeError else isub a b)"

definition iadd_float :: "dtype \<Rightarrow> tensor \<Rightarrow> tensor \<Rightarrow> error + tensor" where
  "iadd_float dt a b = (if dt = Int64 then Inl RuntimeError else iadd a b)"

definition get_label ::
  "(real \<Rightarrow> real \<Rightarrow> real) \<Rightarrow> nat \<Rightarrow> py_number \<Rightarrow> real \<Rightarrow> bool \<Rightarrow> real \<Rightarrow> device
   \<Rightarrow> (nat \<Rightarrow> real) \<Rightarrow> nat list \<Rightarrow> error + tensor" where
  "get_label float_mul size_n real_v soft noise noise_level dev rand_draw perm_draw =
     (let label = torch_full [size_n] (py_value real_v);
          label_dtype = full_dtype real_v
      in
      case (if py_value real_v = 1
            then isub_float label_dtype label (mul_scalar (torch_rand [size_n] rand_draw) soft)
            else iadd_float label_dtype label (mul_scalar (torch_rand [size_n] rand_draw) soft)) of
        Inl e \<Rightarrow> Inl e
      | Inr label \<Rightarrow>
          if noise then
            (let perm = perm_draw;
                 idx = py_slice_upto perm
                         (py_int (float_mul (real (hd (shape label))) noise_level))
             in flip_at label idx)
          else Inr label)"

text \<open>\<^verbatim>\<open>noise_input(data, noise_level=0, device=None, clip=False)\<close>.\<close>

definition noise_input ::
  "tensor \<Rightarrow> real \<Rightarrow> device \<Rightarrow> bool \<Rightarrow> (nat \<Rightarrow> real) \<Rightarrow> error + tensor" where
  "noise_input data noise_level dev clip randn_draw =
     (if noise_level = 0 then Inr (to_device data dev)
      else
        (let noise_data = mul_scalar (torch_randn (shape data) randn_draw) noise_level in
         case iadd noise_data (to_device data dev) of
           Inl e \<Rightarrow> Inl e
         | Inr noise_data \<Rightarrow>
             if clip then Inr (torch_clamp noise_data (- 1) 1) else Inr noise_data))"

text \<open>
  \<^verbatim>\<open>mask_pair_to_label(mask, real_mask, device=None)\<close>. The local \<^verbatim>\<open>mask_size\<close> is computed
  and never used; reading \<^verbatim>\<open>mask1.size()[-1]\<close> for it still raises on a tensor of rank 0.
\<close>

definition mask_pair_to_label :: "tensor list \<Rightarrow> tensor list \<Rightarrow> device \<Rightarrow> error + tensor" where
  "mask_pair_to_label mask' real_mask dev =
     (case py_index mask' (- 1) of
        Inl e \<Rightarrow> Inl e
      | Inr mask1 \<Rightarrow>
     (case py_index real_mask (- 1) of
        Inl e \<Rightarrow> Inl e
      | Inr mask2 \<Rightarrow>
     (case py_index (shape mask1) 0 of
        Inl e \<Rightarrow> Inl e
      | Inr b_size \<Rightarrow>
     (case py_index (shape mask1) (- 1) of
        Inl e \<Rightarrow> Inl e
      | Inr last_dim \<Rightarrow>
     (let mask_size = last_dim ^ 2;
          label = torch_ones [b_size]
      in case tensor_sub mask1 mask2 of
        Inl e \<Rightarrow> Inl e
      | Inr diff \<Rightarrow>
     (case view_rows (div_scalar (tensor_abs diff) 2) b_size of
        Inl e \<Rightarrow> Inl e
      | Inr rows \<Rightarrow>
     (case mean_dim1 rows of
        Inl e \<Rightarrow> Inl e
      | Inr m \<Rightarrow> tensor_sub label m)))))))"

section \<open>The dataset\<close>

text \<open>
  \<^verbatim>\<open>skimage.io.imread\<close> (with its \<^verbatim>\<open>as_gray\<close> flag), \<^verbatim>\<open>skimage.transform.resize\<close> and
  numpy's \<^verbatim>\<open>astype('float32')\<close> are not part of the repository: they are parameters of the
  model, deterministic functions of their arguments, and the first two may raise.
  The caller's \<^verbatim>\<open>transform\<close> and \<^verbatim>\<open>mask_transform\<close> are functions that may raise as well.
\<close>

record library =
  imread :: "string \<Rightarrow> bool \<Rightarrow> error + tensor"
  resize :: "tensor \<Rightarrow> nat \<times> nat \<Rightarrow> error + tensor"
  astype_float32 :: "tensor \<Rightarrow> tensor"

type_synonym transform_fn = "tensor \<Rightarrow> error + tensor"

text \<open>
  The object's attributes. \<open>self_image\<close> and \<open>self_mask\<close> are \<^verbatim>\<open>self.image\<close> and
  \<^verbatim>\<open>self.mask\<close>, which only an eager dataset has; \<open>image_paths\<close> and \<open>mask_paths\<close> are set
  only by a lazy one, whose mask paths may be \<^verbatim>\<open>None\<close>.
\<close>

record flower_dataset =
  len :: int
  transform :: "transform_fn option"
  mask_transform :: "transform_fn option"
  in_memory :: bool
  mask_sizes :: "nat list option"
  image_paths :: "string list"
  mask_paths :: "string option list"
  self_image :: "tensor list"
  self_mask :: "tensor list list"

text \<open>\<^verbatim>\<open>np.expand_dims(mask, axis=-1)\<close>.\<close>

definition expand_dims_last :: "tensor \<Rightarrow> tensor" where
  "expand_dims_last t = t\<lparr>shape := shape t @ [1]\<rparr>"

text \<open>\<^verbatim>\<open>if f is not None: x = f(x)\<close>.\<close>

definition apply_opt :: "transform_fn option \<Rightarrow> tensor \<Rightarrow> error + tensor" where
  "apply_opt f x = (case f of None \<Rightarrow> Inr x | Some g \<Rightarrow> g x)"

text \<open>\<^verbatim>\<open>get_empty_masks\<close>: iterating \<^verbatim>\<open>self.mask_sizes\<close> raises when it is \<^verbatim>\<open>None\<close>.\<close>

definition get_empty_masks :: "flower_dataset \<Rightarrow> error + tensor list" where
  "get_empty_masks self =
     (case mask_sizes self of
        None \<Rightarrow> Inl TypeError
      | Some sizes \<Rightarrow> Inr (map (\<lambda>size_n. neg (torch_ones [1, size_n, size_n])) sizes))"

definition get_mask :: "library \<Rightarrow> flower_dataset \<Rightarrow> tensor \<Rightarrow> nat option \<Rightarrow> error + tensor" where
  "get_mask L self mask_in size_opt =
     (case (case size_opt of
              None \<Rightarrow> Inr mask_in
            | Some size_n \<Rightarrow>
                (case resize L mask_in (size_n, size_n) of
                   Inl e \<Rightarrow> Inl e
                 | Inr r \<Rightarrow> Inr (astype_float32 L r))) of
        Inl e \<Rightarrow> Inl e
      | Inr mask_v \<Rightarrow>
          (case mask_transform self of
             None \<Rightarrow> Inr mask_v
           | Some f \<Rightarrow> f (expand_dims_last mask_v)))"

text \<open>
  The loop \<^verbatim>\<open>masks = []; for size in self.mask_sizes: masks.append(self.get_mask(mask, size))\<close>,
  which the constructor and the lookup both run.
\<close>

fun masks_loop ::
  "library \<Rightarrow> flower_dataset \<Rightarrow> tensor \<Rightarrow> nat list \<Rightarrow> tensor list \<Rightarrow> error + tensor list" where
  "masks_loop L self mask_in [] masks = Inr masks"
| "masks_loop L self mask_in (size_n # rest) masks =
     (case get_mask L self mask_in (Some size_n) of
        Inl e \<Rightarrow> Inl e
      | Inr m \<Rightarrow> masks_loop L self mask_in rest (masks @ [m]))"

definition sized_masks :: "library \<Rightarrow> flower_dataset \<Rightarrow> tensor \<Rightarrow> error + tensor list" where
  "sized_masks L self mask_in =
     (case mask_sizes self of
        None \<Rightarrow> Inl TypeError
      | Some sizes \<Rightarrow> masks_loop L self mask_in sizes [])"

text \<open>
  The eager loop of \<^verbatim>\<open>__init__\<close> over \<^verbatim>\<open>enumerate(image_paths)\<close>; \<open>i\<close> is the position of
  \<open>path\<close> in the list the caller gave. The mask is read with \<^verbatim>\<open>as_gray=True\<close>.
\<close>

fun load_images ::
  "library \<Rightarrow> string list option \<Rightarrow> nat \<Rightarrow> string list \<Rightarrow> flower_dataset \<Rightarrow> error + flower_dataset" where
  "load_images L mask_paths' i [] self = Inr self"
| "load_images L mask_paths' i (path # rest) self =
     (case imread L path False of
        Inl e \<Rightarrow> Inl e
      | Inr img \<Rightarrow>
          if length (shape img) \<noteq> 3
          then load_images L mask_paths' (Suc i) rest (self\<lparr>len := len self - 1\<rparr>)
          else
            (case apply_opt (transform self) img of
               Inl e \<Rightarrow> Inl e
             | Inr img' \<Rightarrow>
                 (let self1 = self\<lparr>self_image := self_image self @ [img']\<rparr> in
                  case mask_paths' of
                    None \<Rightarrow>
                      (case get_empty_masks self1 of
                         Inl e \<Rightarrow> Inl e
                       | Inr masks \<Rightarrow>
                           load_images L mask_paths' (Suc i) rest
                             (self1\<lparr>self_mask := self_mask self1 @ [masks]\<rparr>))
                  | Some mps \<Rightarrow>
                      (case py_index mps (int i) of
                         Inl e \<Rightarrow> Inl e
                       | Inr mask_path \<Rightarrow>
                           (case imread L mask_path True of
                              Inl e \<Rightarrow> Inl e
                            | Inr mask_in \<Rightarrow>
                                (case sized_masks L self1 mask_in of
                                   Inl e \<Rightarrow> Inl e
                                 | Inr masks \<Rightarrow>
                                     load_images L mask_paths' (Suc i) rest
                                       (self1\<lparr>self_mask := self_mask self1 @ [masks]\<rparr>)))))))"

text \<open>
  \<^verbatim>\<open>__init__(image_paths, mask_paths=None, mask_sizes=None, transform=None,
  mask_transform=None, in_memory=True)\<close>. \<open>new_self\<close> is the object after the five
  assignments the constructor starts with. A lazy dataset returns before anything is read.
\<close>

definition new_self ::
  "string list \<Rightarrow> nat list option \<Rightarrow> transform_fn option \<Rightarrow> transform_fn option \<Rightarrow> bool
   \<Rightarrow> flower_dataset" where
  "new_self image_paths' mask_sizes' transform' mask_transform' in_memory' =
     \<lparr>len = int (length image_paths'), transform = transform',
      mask_transform = mask_transform', in_memory = in_memory', mask_sizes = mask_sizes',
      image_paths = [], mask_paths = [], self_image = [], self_mask = []\<rparr>"

definition flower_dataset_init ::
  "library \<Rightarrow> string list \<Rightarrow> string list option \<Rightarrow> nat list option \<Rightarrow>
   transform_fn option \<Rightarrow> transform_fn option \<Rightarrow> bool \<Rightarrow> error + flower_dataset" where
  "flower_dataset_init L image_paths' mask_paths' mask_sizes' transform' mask_transform' in_memory' =
     (let self = new_self image_paths' mask_sizes' transform' mask_transform' in_memory'
      in if \<not> in_memory self
         then Inr (self\<lparr>image_paths := image_paths',
                         mask_paths := (case mask_paths' of
                                          None \<Rightarrow> replicate (nat (len self)) None
                                        | Some mps \<Rightarrow> map Some mps)\<rparr>)
         else load_images L mask_paths' 0 image_paths' self)"

text \<open>\<^verbatim>\<open>__len__\<close>.\<close>

definition dataset_len :: "flower_dataset \<Rightarrow> int" where
  "dataset_len self = len self"

text \<open>\<^verbatim>\<open>__getitem__\<close>. The lazy branch reads the mask without \<^verbatim>\<open>as_gray\<close>.\<close>

definition getitem :: "library \<Rightarrow> flower_dataset \<Rightarrow> int \<Rightarrow> error + tensor \<times> tensor list" where
  "getitem L self idx =
     (if in_memory self then
        (case py_index (self_image self) idx of
           Inl e \<Rightarrow> Inl e
         | Inr img \<Rightarrow>
             (case py_index (self_mask self) idx of
                Inl e \<Rightarrow> Inl e
              | Inr masks \<Rightarrow> Inr (img, masks)))
      else
        (case py_index (image_paths self) idx of
           Inl e \<Rightarrow> Inl e
         | Inr image_path \<Rightarrow>
        (case imread L image_path False of
           Inl e \<Rightarrow> Inl e
         | Inr img \<Rightarrow>
        (case apply_opt (transform self) img of
           Inl e \<Rightarrow> Inl e
         | Inr img' \<Rightarrow>
        (case py_index (mask_paths self) idx of
           Inl e \<Rightarrow> Inl e
         | Inr None \<Rightarrow>
             (case get_empty_masks self of
                Inl e \<Rightarrow> Inl e
              | Inr masks \<Rightarrow> Inr (img', masks))
         | Inr (Some mask_path) \<Rightarrow>
             (case imread L mask_path False of
                Inl e \<Rightarrow> Inl e
              | Inr mask_in \<Rightarrow>
                  (case sized_masks L self mask_in of
                     Inl e \<Rightarrow> Inl e
                   | Inr masks \<Rightarrow> Inr (img', masks))))))))"

text \<open>
  The two readings of "an image with exactly 3 channels": what the specification says (a
  raster of height, width and 3 channels) and what the constructor tests
  (\<^verbatim>\<open>len(image.shape) == 3\<close>, an array of 3 axes). \<open>count_decoded L P paths\<close> counts the
  paths whose decoded image satisfies \<open>P\<close>.
\<close>

definition spec_three_channels :: "tensor \<Rightarrow> bool" where
  "spec_three_channels img = (case shape img of [h, w, c] \<Rightarrow> c = 3 | _ \<Rightarrow> False)"

definition three_axes :: "tensor \<Rightarrow> bool" where
  "three_axes img = (length (shape img) = 3)"

definition count_decoded :: "library \<Rightarrow> (tensor \<Rightarrow> bool) \<Rightarrow> string list \<Rightarrow> nat" where
  "count_decoded L P paths =
     length (filter (\<lambda>path. case imread L path False of Inl e \<Rightarrow> False | Inr img \<Rightarrow> P img) paths)"

text \<open>
  What one round of the eager loop computes for an image it keeps: the transformed image
  and its masks. \<open>eager_entry\<close> is the same from the path on; \<open>entry_ok\<close> says that the
  round of path \<open>p\<close> at position \<open>i\<close> raises nothing. Two objects have the
  \<open>same_config\<close> when they agree on the attributes these computations read.
\<close>

definition eager_sample ::
  "library \<Rightarrow> flower_dataset \<Rightarrow> string list option \<Rightarrow> nat \<Rightarrow> tensor
   \<Rightarrow> error + tensor \<times> tensor list" where
  "eager_sample L self mask_paths' i img =
     (case apply_opt (transform self) img of
        Inl e \<Rightarrow> Inl e
      | Inr img' \<Rightarrow>
          (case mask_paths' of
             None \<Rightarrow>
               (case get_empty_masks self of
                  Inl e \<Rightarrow> Inl e
                | Inr masks \<Rightarrow> Inr (img', masks))
           | Some mps \<Rightarrow>
               (case py_index mps (int i) of
                  Inl e \<Rightarrow> Inl e
                | Inr mask_path \<Rightarrow>
                    (case imread L mask_path True of
                       Inl e \<Rightarrow> Inl e
                     | Inr mask_in \<Rightarrow>
                         (case sized_masks L self mask_in of
                            Inl e \<Rightarrow> Inl e
                          | Inr masks \<Rightarrow> Inr (img', masks))))))"

definition eager_entry ::
  "library \<Rightarrow> flower_dataset \<Rightarrow> string list option \<Rightarrow> nat \<times> string
   \<Rightarrow> error + tensor \<times> tensor list" where
  "eager_entry L self mp ip =
     (case imread L (snd ip) False of
        Inl e \<Rightarrow> Inl e
      | Inr img \<Rightarrow> eager_sample L self mp (fst ip) img)"

definition entry_ok ::
  "library \<Rightarrow> flower_dataset \<Rightarrow> string list option \<Rightarrow> nat \<times> string \<Rightarrow> bool" where
  "entry_ok L self mp ip =
     (case imread L (snd ip) False of
        Inl e \<Rightarrow> False
      | Inr img \<Rightarrow> if three_axes img then \<not> isl (eager_sample L self mp (fst ip) img) else True)"

definition same_config :: "flower_dataset \<Rightarrow> flower_dataset \<Rightarrow> bool" where
  "same_config s1 s2 =
     (transform s1 = transform s2 \<and> mask_transform s1 = mask_transform s2
      \<and> mask_sizes s1 = mask_sizes s2)"

section \<open>The weight initialiser\<close>

text \<open>
  A layer object: its class name, its \<^verbatim>\<open>weight\<close> and \<^verbatim>\<open>bias\<close> (\<open>None\<close> when the attribute is
  missing or \<^verbatim>\<open>None\<close>, where \<^verbatim>\<open>.data\<close> raises), and everything else it holds in the record's
  extension. \<^verbatim>\<open>s.find(sub)\<close> is the first position of \<open>sub\<close> in \<open>s\<close>, or \<open>-1\<close>.
\<close>

record layer =
  classname :: string
  weight :: "tensor option"
  bias :: "tensor option"

fun find_from :: "string \<Rightarrow> string \<Rightarrow> nat \<Rightarrow> int" where
  "find_from [] sub i = (if sub = [] then int i else - 1)"
| "find_from (c # cs) sub i = (if prefix sub (c # cs) then int i else find_from cs sub (Suc i))"

definition str_find :: "string \<Rightarrow> string \<Rightarrow> int" where
  "str_find s sub = find_from s sub 0"

text \<open>
  \<^verbatim>\<open>nn.init.normal_(t, mean, std)\<close> overwrites every value with \<open>mean + std * g j\<close> for a
  standard normal draw \<open>g\<close>; \<^verbatim>\<open>nn.init.constant_(t, v)\<close> overwrites every value with \<open>v\<close>.
\<close>

definition normal_init :: "tensor \<Rightarrow> real \<Rightarrow> real \<Rightarrow> (nat \<Rightarrow> real) \<Rightarrow> tensor" where
  "normal_init t mean std g =
     t\<lparr>vals := map (\<lambda>j. Fin (mean + std * g j)) [0..<numel (shape t)]\<rparr>"

definition constant_init :: "tensor \<Rightarrow> real \<Rightarrow> tensor" where
  "constant_init t v = t\<lparr>vals := replicate (numel (shape t)) (Fin v)\<rparr>"

text \<open>
  \<^verbatim>\<open>weights_init(m)\<close> mutates \<open>m\<close> in place: the model returns the layer as the call leaves
  it, and the exception when one is raised on the way.
\<close>

definition weights_init ::
  "'a layer_scheme \<Rightarrow> (nat \<Rightarrow> real) \<Rightarrow> 'a layer_scheme \<times> error option" where
  "weights_init m normal_draw =
     (let cn = classname m in
      if str_find cn ''Conv'' \<noteq> - 1 then
        (case weight m of
           None \<Rightarrow> (m, Some AttributeError)
         | Some w \<Rightarrow> (m\<lparr>weight := Some (normal_init w 0.0 0.02 normal_draw)\<rparr>, None))
      else if str_find cn ''BatchNorm'' \<noteq> - 1 then
        (case weight m of
           None \<Rightarrow> (m, Some AttributeError)
         | Some w \<Rightarrow>
             (let m1 = m\<lparr>weight := Some (normal_init w 1.0 0.02 normal_draw)\<rparr> in
              case bias m1 of
                None \<Rightarrow> (m1, Some AttributeError)
              | Some b \<Rightarrow> (m1\<lparr>bias := Some (constant_init b 0)\<rparr>, None)))
      else (m, None))"

section \<open>The mask sampler\<close>

text \<open>
  \<^verbatim>\<open>mask[i,:,:,:] += t\<close> on a tensor of four axes, as the sampler's tensors are: \<open>t\<close> is
  expanded to the shape of the slice and added to the values of slice \<open>i\<close>; the other
  slices stay.
\<close>

definition slice_iadd :: "tensor \<Rightarrow> nat \<Rightarrow> tensor \<Rightarrow> error + tensor" where
  "slice_iadd mask_t i t =
     (case shape mask_t of
        [b, c, h, w] \<Rightarrow>
          if i < b then
            (case expand_to [c, h, w] t of
               Inl e \<Rightarrow> Inl e
             | Inr ys \<Rightarrow>
                 (let n = numel [c, h, w] in
                  Inr (mask_t\<lparr>vals := take (i * n) (vals mask_t)
                                       @ map2 fadd (take n (drop (i * n) (vals mask_t))) ys
                                       @ drop (i * n + n) (vals mask_t)\<rparr>)))
          else Inl IndexError
      | _ \<Rightarrow> Inl IndexError)"

text \<open>
  \<^verbatim>\<open>np.random.randint(high)\<close> returns an integer of \<open>[0, high)\<close> and raises when there is
  none; \<open>raw\<close> is the draw, reduced to the range.
\<close>

definition randint :: "int \<Rightarrow> nat \<Rightarrow> error + int" where
  "randint high raw = (if high \<le> 0 then Inl ValueError else Inr (int raw mod high))"

text \<open>The inner loop \<^verbatim>\<open>for k, mask in enumerate(masks)\<close>, for one \<open>i\<close> and its \<open>n\<close>.\<close>

fun add_real_masks ::
  "library \<Rightarrow> flower_dataset \<Rightarrow> device \<Rightarrow> nat \<Rightarrow> int \<Rightarrow> nat \<Rightarrow> tensor list \<Rightarrow> error + tensor list" where
  "add_real_masks L realdata dev i n k [] = Inr []"
| "add_real_masks L realdata dev i n k (mask_t # rest) =
     (case getitem L realdata n of
        Inl e \<Rightarrow> Inl e
      | Inr sample \<Rightarrow>
          (case py_index (snd sample) (int k) of
             Inl e \<Rightarrow> Inl e
           | Inr real_mask \<Rightarrow>
               (case slice_iadd mask_t i (to_device real_mask dev) of
                  Inl e \<Rightarrow> Inl e
                | Inr mask_t' \<Rightarrow>
                    (case add_real_masks L realdata dev i n (Suc k) rest of
                       Inl e \<Rightarrow> Inl e
                     | Inr rest' \<Rightarrow> Inr (mask_t' # rest')))))"

text \<open>The outer loop \<^verbatim>\<open>for i in range(batch_size)\<close>; \<open>randint_draw i\<close> is the draw of round \<open>i\<close>.\<close>

fun sample_loop ::
  "library \<Rightarrow> flower_dataset \<Rightarrow> device \<Rightarrow> (nat \<Rightarrow> nat) \<Rightarrow> nat list \<Rightarrow> tensor list \<Rightarrow> error + tensor list" where
  "sample_loop L realdata dev randint_draw [] masks = Inr masks"
| "sample_loop L realdata dev randint_draw (i # rest) masks =
     (case randint (dataset_len realdata) (randint_draw i) of
        Inl e \<Rightarrow> Inl e
      | Inr n \<Rightarrow>
          (case add_real_masks L realdata dev i n 0 masks of
             Inl e \<Rightarrow> Inl e
           | Inr masks' \<Rightarrow> sample_loop L realdata dev randint_draw rest masks'))"

text \<open>
  \<^verbatim>\<open>sample_mask(batch_size, sizes, realdata, noise_level=0.2, device=None)\<close>;
  \<open>randn_draw k\<close> is the draw of the \<open>k\<close>-th \<^verbatim>\<open>torch.randn\<close>.
\<close>

definition noise_masks :: "nat \<Rightarrow> nat list \<Rightarrow> real \<Rightarrow> (nat \<Rightarrow> nat \<Rightarrow> real) \<Rightarrow> tensor list" where
  "noise_masks batch_size sizes noise_level randn_draw =
     map (\<lambda>(k, size_n).
            mul_scalar (torch_randn [batch_size, 1, size_n, size_n] (randn_draw k)) noise_level)
         (enumerate 0 sizes)"

definition sample_mask ::
  "library \<Rightarrow> nat \<Rightarrow> nat list \<Rightarrow> flower_dataset \<Rightarrow> real \<Rightarrow> device \<Rightarrow>
   (nat \<Rightarrow> nat \<Rightarrow> real) \<Rightarrow> (nat \<Rightarrow> nat) \<Rightarrow> error + tensor list" where
  "sample_mask L batch_size sizes realdata noise_level dev randn_draw randint_draw =
     (let masks = noise_masks batch_size sizes noise_level randn_draw
      in sample_loop L realdata dev randint_draw [0..<batch_size] masks)"

text \<open>
  \<^verbatim>\<open>t[i]\<close>, slice \<open>i\<close> along the first axis, is how the result of the sampler is read.
  \<open>added_at L rd dev n i ms ms'\<close> says that slice \<open>i\<close> of every tensor of \<open>ms'\<close> is that slice
  of \<open>ms\<close> plus the mask of the same position of example \<open>n\<close> of \<open>rd\<close>, expanded to the
  shape of the slice; \<open>kept_at i ms ms'\<close> says that slice \<open>i\<close> is the same in both.
\<close>

definition index_first :: "tensor \<Rightarrow> nat \<Rightarrow> tensor" where
  "index_first t i =
     \<lparr>shape = tl (shape t),
      vals = take (numel (tl (shape t))) (drop (i * numel (tl (shape t))) (vals t))\<rparr>"

definition added_at ::
  "library \<Rightarrow> flower_dataset \<Rightarrow> device \<Rightarrow> int \<Rightarrow> nat \<Rightarrow> tensor list \<Rightarrow> tensor list \<Rightarrow> bool" where
  "added_at L rd dev n i ms ms' =
     (\<forall>k < length ms. \<exists>sample ys.
        getitem L rd n = Inr sample \<and> k < length (snd sample)
        \<and> expand_to (tl (shape (ms ! k))) (to_device (snd sample ! k) dev) = Inr ys
        \<and> vals (index_first (ms' ! k) i) = map2 fadd (vals (index_first (ms ! k) i)) ys)"

definition kept_at :: "nat \<Rightarrow> tensor list \<Rightarrow> tensor list \<Rightarrow> bool" where
  "kept_at i ms ms' = (\<forall>k < length ms. index_first (ms' ! k) i = index_first (ms ! k) i)"

section \<open>Concrete inputs\<close>

text \<open>
  A small image library for the examples: three one-pixel files (RGB, RGBA and grayscale)
  and a mask file that decodes to another array with \<^verbatim>\<open>as_gray\<close> than without, as a
  colour file does; every other path is unreadable. Its \<open>resize\<close> fills the new raster with
  the first value of the old one.
\<close>

definition rgb_image :: tensor where
  "rgb_image = \<lparr>shape = [1, 1, 3], vals = [Fin 1, Fin 2, Fin 3]\<rparr>"

definition rgba_image :: tensor where
  "rgba_image = \<lparr>shape = [1, 1, 4], vals = [Fin 1, Fin 2, Fin 3, Fin 4]\<rparr>"

definition gray_image :: tensor where
  "gray_image = \<lparr>shape = [1, 1], vals = [Fin 9]\<rparr>"

definition demo_library :: library where
  "demo_library =
     \<lparr>imread = (\<lambda>path as_gray.
          if path = ''rgb.png'' then Inr rgb_image
          else if path = ''rgba.png'' then Inr rgba_image
          else if path = ''gray.png'' then Inr gray_image
          else if path = ''mask.png''
            then (if as_gray then Inr \<lparr>shape = [1, 1], vals = [Fin (1 / 2)]\<rparr>
                  else Inr \<lparr>shape = [1, 1, 3], vals = [Fin 0, Fin 128, Fin 255]\<rparr>)
          else Inl IOError),
      resize = (\<lambda>t hw. Inr \<lparr>shape = fst hw # snd hw # drop 2 (shape t),
                              vals = replicate (numel (fst hw # snd hw # drop 2 (shape t)))
                                       (hd (vals t))\<rparr>),
      astype_float32 = (\<lambda>t. t)\<rparr>"

definition demo_paths :: "string list" where
  "demo_paths = [''gray.png'', ''rgb.png'']"

definition empty_mask2 :: tensor where
  "empty_mask2 = \<lparr>shape = [1, 2, 2], vals = [Fin (- 1), Fin (- 1), Fin (- 1), Fin (- 1)]\<rparr>"

definition empty_masks_8_16 :: "tensor list" where
  "empty_masks_8_16 =
     [\<lparr>shape = [1, 8, 8], vals = replicate 64 (Fin (- 1))\<rparr>,
      \<lparr>shape = [1, 16, 16], vals = replicate 256 (Fin (- 1))\<rparr>]"

text \<open>
  The datasets the constructor builds from these files: eagerly and lazily from
  \<open>demo_paths\<close> without masks, eagerly from the RGBA file, and both ways from the RGB file
  with the grayscale file as its mask.
\<close>

definition demo_eager_ds :: flower_dataset where
  "demo_eager_ds =
     \<lparr>len = 1, transform = None, mask_transform = None, in_memory = True,
      mask_sizes = Some [2], image_paths = [], mask_paths = [],
      self_image = [rgb_image], self_mask = [[empty_mask2]]\<rparr>"

definition demo_lazy_ds :: flower_dataset where
  "demo_lazy_ds =
     \<lparr>len = 2, transform = None, mask_transform = None, in_memory = False,
      mask_sizes = Some [2], image_paths = demo_paths, mask_paths = [None, None],
      self_image = [], self_mask = []\<rparr>"

definition rgba_ds :: flower_dataset where
  "rgba_ds =
     \<lparr>len = 1, transform = None, mask_transform = None, in_memory = True,
      mask_sizes = Some [], image_paths = [], mask_paths = [],
      self_image = [rgba_image], self_mask = [[]]\<rparr>"

definition masked_eager_ds :: flower_dataset where
  "masked_eager_ds =
     \<lparr>len = 1, transform = None, mask_transform = None, in_memory = True,
      mask_sizes = Some [2], image_paths = [], mask_paths = [],
      self_image = [rgb_image],
      self_mask = [[\<lparr>shape = [2, 2], vals = [Fin 9, Fin 9, Fin 9, Fin 9]\<rparr>]]\<rparr>"

definition masked_lazy_ds :: flower_dataset where
  "masked_lazy_ds =
     \<lparr>len = 1, transform = None, mask_transform = None, in_memory = False,
      mask_sizes = Some [2], image_paths = [''rgb.png''], mask_paths = [Some ''gray.png''],
      self_image = [], self_mask = []\<rparr>"

text \<open>What the sampler returns for a batch of 2 from the eager example dataset.\<close>

definition demo_sampled :: "tensor list" where
  "demo_sampled =
     [\<lparr>shape = [2, 1, 2, 2], vals = [Fin 0, Fin 0, Fin 0, Fin 0, Fin 0, Fin 0, Fin 0, Fin 0]\<rparr>]"

definition conv_layer :: layer where
  "conv_layer = \<lparr>classname = ''Conv2d'', weight = Some \<lparr>shape = [2], vals = [Fin 5, Fin 5]\<rparr>,
                 bias = Some \<lparr>shape = [1], vals = [Fin 7]\<rparr>\<rparr>"

definition norm_layer :: layer where
  "norm_layer = \<lparr>classname = ''BatchNorm2d'', weight = Some \<lparr>shape = [2], vals = [Fin 5, Fin 5]\<rparr>,
                 bias = Some \<lparr>shape = [2], vals = [Fin 7, Fin 7]\<rparr>\<rparr>"

definition linear_layer :: layer where
  "linear_layer = \<lparr>classname = ''Linear'', weight = Some \<lparr>shape = [2], vals = [Fin 5, Fin 5]\<rparr>,
                   bias = Some \<lparr>shape = [1], vals = [Fin 7]\<rparr>\<rparr>"

section \<open>Facts about the tensor operations\<close>

lemma concat_chunks: "length xs = n * c \<Longrightarrow> concat (chunks c n xs) = xs"
proof (induction n arbitrary: xs)
  case 0
  then show ?case by (simp add: chunks_def)
next
  case (Suc n)
  have len: "length (take (n * c) xs) = n * c"
    using Suc.prems by simp
  have pre: "chunks c n xs = chunks c n (take (n * c) xs)"
    unfolding chunks_def
  proof (rule map_cong[OF refl])
    fix j assume "j \<in> set [0..<n]"
    then have "j * c + c \<le> n * c"
      by (metis Suc_leI atLeastLessThan_iff mult_Suc mult_le_mono1 set_upt add.commute)
    then show "take c (drop (j * c) xs) = take c (drop (j * c) (take (n * c) xs))"
      by (simp add: drop_take min_def)
  qed
  have "chunks c (Suc n) xs = chunks c n xs @ [take c (drop (n * c) xs)]"
    by (simp add: chunks_def)
  then have "concat (chunks c (Suc n) xs)
        = concat (chunks c n (take (n * c) xs)) @ take c (drop (n * c) xs)"
    using pre by simp
  also have "\<dots> = take (n * c) xs @ drop (n * c) xs"
    using Suc.IH[OF len] Suc.prems by simp
  finally show ?case by simp
qed

lemma expandable_refl: "expandable s s"
  by (simp add: expandable_def list_all2_same)

lemma expand_vals_same: "length xs = numel s \<Longrightarrow> expand_vals s s xs = xs"
proof (induction s arbitrary: xs)
  case Nil
  then show ?case by simp
next
  case (Cons a s)
  have "map (expand_vals s s) (chunks (numel s) a xs) = chunks (numel s) a xs"
  proof (rule map_idI)
    fix ys assume "ys \<in> set (chunks (numel s) a xs)"
    then obtain j where j: "j < a" and ys: "ys = take (numel s) (drop (j * numel s) xs)"
      by (auto simp: chunks_def)
    have "j * numel s + numel s \<le> a * numel s"
      using j by (metis Suc_leI mult_Suc mult_le_mono1 add.commute)
    then have "length ys = numel s"
      using Cons.prems ys by (simp add: numel_def)
    then show "expand_vals s s ys = ys" by (rule Cons.IH)
  qed
  then show ?case
    using Cons.prems by (simp add: concat_chunks numel_def)
qed

lemma expand_to_same: "wf_tensor t \<Longrightarrow> expand_to (shape t) t = Inr (vals t)"
  by (simp add: expand_to_def expandable_refl expand_vals_same wf_tensor_def)

lemma expand_to_shape:
  "shape t = s \<Longrightarrow> length (vals t) = numel s \<Longrightarrow> expand_to s t = Inr (vals t)"
  using expand_to_same[of t] by (simp add: wf_tensor_def)

lemma map2_fsub_replicate: "map2 fsub (replicate n (Fin a)) (replicate n (Fin b)) = replicate n (Fin (a - b))"
  by (induction n) (auto simp: fsub_def)

lemma map2_fadd_replicate: "map2 fadd (replicate n (Fin a)) (replicate n (Fin b)) = replicate n (Fin (a + b))"
  by (induction n) auto

lemma map_const_upt: "map (\<lambda>j. c) [0..<n] = replicate n c"
  by (simp add: map_replicate_const)






section \<open>Labels and noisy inputs\<close>

text \<open>
  C4, as the specification states it, calls \<^verbatim>\<open>get_label(size, real=1, soft=0, noise=False)\<close>
  with the Python integers 1 and 0. The source builds the label with
  \<^verbatim>\<open>torch.full((size,), real)\<close> and no dtype, so the label is an int64 tensor, and the
  in-place update by the float tensor \<^verbatim>\<open>torch.rand(size) * soft\<close> raises \<^verbatim>\<open>RuntimeError\<close>: for
  every size, in both branches, and whatever is drawn, the call returns no vector.
\<close>

theorem get_label_int_fill_raises:
  "get_label float_mul size_n (PyInt 1) 0 False noise_level dev rand_draw perm_draw
     = Inl RuntimeError
   \<and> get_label float_mul size_n (PyInt 0) 0 False noise_level dev rand_draw perm_draw
     = Inl RuntimeError"
  by (simp add: get_label_def Let_def isub_float_def iadd_float_def)

text \<open>
  Called with the floats \<^verbatim>\<open>1.0\<close> and \<^verbatim>\<open>0.0\<close> the function does return the vector of \<open>size\<close>
  ones and the vector of \<open>size\<close> zeros, whatever \<^verbatim>\<open>torch.rand\<close> draws: the draw is multiplied
  by \<open>soft = 0\<close> before it is subtracted or added.
\<close>

lemma get_label_float_fill:
  "get_label float_mul size_n (PyFloat 1) 0 False noise_level dev rand_draw perm_draw
     = Inr \<lparr>shape = [size_n], vals = replicate size_n (Fin 1)\<rparr>
   \<and> get_label float_mul size_n (PyFloat 0) 0 False noise_level dev rand_draw perm_draw
     = Inr \<lparr>shape = [size_n], vals = replicate size_n (Fin 0)\<rparr>"
proof -
  let ?noise = "mul_scalar (torch_rand [size_n] rand_draw) 0"
  have nz: "?noise = \<lparr>shape = [size_n], vals = replicate size_n (Fin 0)\<rparr>"
    by (simp add: mul_scalar_def torch_rand_def numel_def comp_def map_const_upt)
  have ex: "expand_to [size_n] ?noise = Inr (replicate size_n (Fin 0))"
    unfolding nz by (rule expand_to_shape[THEN trans]) (simp_all add: numel_def)
  show ?thesis
    by (simp add: get_label_def Let_def isub_float_def iadd_float_def isub_def iadd_def ex
        torch_full_def numel_def map2_fsub_replicate map2_fadd_replicate fsub_def)
qed

lemma int_fill_raises_for_every_soft:
  "get_label float_mul size_n (PyInt n) soft noise noise_level dev rand_draw perm_draw
     = Inl RuntimeError"
  by (simp add: get_label_def Let_def isub_float_def iadd_float_def)

text \<open>
  C6. \<^verbatim>\<open>noise_input(data, noise_level=0)\<close> returns \<^verbatim>\<open>data.to(device)\<close>: the shape and the
  values of \<open>data\<close>, whatever the device, the \<^verbatim>\<open>clip\<close> flag and the state of the random
  generator.
\<close>

theorem noise_input_zero:
  "noise_input data 0 dev clip randn_draw = Inr (to_device data dev)
   \<and> shape (to_device data dev) = shape data \<and> vals (to_device data dev) = vals data"
  by (simp add: noise_input_def to_device_def)




section \<open>The similarity label of a mask pair\<close>

lemma py_index_last: "xs \<noteq> [] \<Longrightarrow> py_index xs (- 1) = Inr (last xs)"
proof -
  assume ne: "xs \<noteq> []"
  then have "nat (int (length xs) + - 1) = length xs - 1"
    by (cases xs) simp_all
  moreover have "Suc 0 \<le> length xs"
    using ne by (cases xs) simp_all
  ultimately show ?thesis
    using ne by (simp add: py_index_def last_conv_nth)
qed

lemma py_index_first: "py_index (x # xs) 0 = Inr x"
  by (simp add: py_index_def)

lemma broadcast_rev_same: "broadcast_rev xs xs = Some xs"
  by (induction xs) simp_all

lemma broadcast_shapes_same: "broadcast_shapes s s = Some s"
  by (simp add: broadcast_shapes_def broadcast_rev_same)

lemma tensor_sub_same_shape:
  assumes "shape a = shape b" "wf_tensor a" "wf_tensor b"
  shows "tensor_sub a b = Inr \<lparr>shape = shape a, vals = map2 fsub (vals a) (vals b)\<rparr>"
  using assms expand_to_same[of a] expand_to_same[of b]
  by (simp add: tensor_sub_def broadcast_shapes_same)

lemma fsub_self: "is_finite x \<Longrightarrow> fsub x x = Fin 0"
  by (cases x) (simp_all add: fsub_def)

lemma map2_fsub_self:
  "\<forall>x \<in> set xs. is_finite x \<Longrightarrow> map2 fsub xs xs = replicate (length xs) (Fin 0)"
  by (induction xs) (simp_all add: fsub_self)

lemma fsum_zeros: "fsum (replicate c (Fin 0)) = Fin 0"
  by (induction c) (simp_all add: fsum_def)

lemma chunks_replicate: "chunks c b (replicate (b * c) x) = replicate b (replicate c x)"
proof -
  have "\<And>j. j < b \<Longrightarrow> min c (b * c - j * c) = c"
  proof -
    fix j assume "j < b"
    then have "j * c + c \<le> b * c"
      by (metis Suc_leI mult_Suc mult_le_mono1 add.commute)
    then show "min c (b * c - j * c) = c" by simp
  qed
  then have "map (\<lambda>j. take c (drop (j * c) (replicate (b * c) x))) [0..<b]
           = map (\<lambda>j. replicate c x) [0..<b]"
    by (intro map_cong refl) simp
  then show ?thesis
    by (simp add: chunks_def map_replicate_const)
qed

subsection \<open>The example masks\<close>

lemma mask_pair_to_label_no_masks: "mask_pair_to_label [] real_mask dev = Inl IndexError"
  by (simp add: mask_pair_to_label_def py_index_def)

lemma mask_pair_to_label_no_axes:
  "mask_pair_to_label [\<lparr>shape = [], vals = [Fin 1]\<rparr>] [\<lparr>shape = [], vals = [Fin 1]\<rparr>] dev
     = Inl IndexError"
  by (simp add: mask_pair_to_label_def py_index_def)

lemma mask_pair_to_label_no_batch:
  "mask_pair_to_label [\<lparr>shape = [0, 3], vals = []\<rparr>] [\<lparr>shape = [0, 3], vals = []\<rparr>] dev
     = Inl RuntimeError"
proof -
  let ?t = "\<lparr>shape = [0, 3], vals = [] :: fval list\<rparr>"
  have wf: "wf_tensor ?t" by (simp add: wf_tensor_def numel_def)
  have d: "tensor_sub ?t ?t = Inr ?t"
    using tensor_sub_same_shape[OF refl wf wf] by simp
  show ?thesis
    by (simp add: mask_pair_to_label_def py_index_def d Let_def view_rows_def div_scalar_def
        tensor_abs_def numel_def)
qed

lemma mask_pair_to_label_no_pixels:
  "mask_pair_to_label [\<lparr>shape = [2, 0], vals = []\<rparr>] [\<lparr>shape = [2, 0], vals = []\<rparr>] dev
     = Inr \<lparr>shape = [2], vals = [NaN, NaN]\<rparr>"
proof -
  let ?t = "\<lparr>shape = [2, 0], vals = [] :: fval list\<rparr>"
  have wf: "wf_tensor ?t" by (simp add: wf_tensor_def numel_def)
  have d: "tensor_sub ?t ?t = Inr ?t"
    using tensor_sub_same_shape[OF refl wf wf] by simp
  have v: "view_rows (div_scalar (tensor_abs ?t) 2) 2 = Inr ?t"
    by (simp add: view_rows_def div_scalar_def tensor_abs_def numel_def)
  have mn: "mean_dim1 ?t = Inr \<lparr>shape = [2], vals = [NaN, NaN]\<rparr>"
    unfolding mean_dim1_def chunks_def by (simp add: fsum_def eval_nat_numeral)
  have o: "torch_ones [2] = \<lparr>shape = [2], vals = [Fin 1, Fin 1]\<rparr>"
    unfolding torch_ones_def torch_full_def numel_def by (simp add: eval_nat_numeral)
  have fin: "tensor_sub (torch_ones [2]) \<lparr>shape = [2], vals = [NaN, NaN]\<rparr>
           = Inr \<lparr>shape = [2], vals = [NaN, NaN]\<rparr>"
    unfolding o by (subst tensor_sub_same_shape) (simp_all add: wf_tensor_def numel_def fsub_def)
  show ?thesis
    by (simp add: mask_pair_to_label_def py_index_def d v mn fin Let_def)
qed

lemma mask_pair_to_label_infinite:
  "mask_pair_to_label [\<lparr>shape = [1, 1], vals = [PInf]\<rparr>] [\<lparr>shape = [1, 1], vals = [PInf]\<rparr>] dev
     = Inr \<lparr>shape = [1], vals = [NaN]\<rparr>"
proof -
  let ?t = "\<lparr>shape = [1, 1], vals = [PInf]\<rparr>"
  let ?n = "\<lparr>shape = [1, 1], vals = [NaN]\<rparr>"
  have wf: "wf_tensor ?t" by (simp add: wf_tensor_def numel_def)
  have d: "tensor_sub ?t ?t = Inr ?n"
    using tensor_sub_same_shape[OF refl wf wf] by (simp add: fsub_def)
  have v: "view_rows (div_scalar (tensor_abs ?n) 2) 1 = Inr ?n"
    by (simp add: view_rows_def div_scalar_def tensor_abs_def numel_def)
  have mn: "mean_dim1 ?n = Inr \<lparr>shape = [1], vals = [NaN]\<rparr>"
    unfolding mean_dim1_def chunks_def by (simp add: fsum_def)
  have o: "torch_ones [1] = \<lparr>shape = [1], vals = [Fin 1]\<rparr>"
    unfolding torch_ones_def torch_full_def numel_def by simp
  have fin: "tensor_sub (torch_ones [1]) \<lparr>shape = [1], vals = [NaN]\<rparr>
           = Inr \<lparr>shape = [1], vals = [NaN]\<rparr>"
    unfolding o by (subst tensor_sub_same_shape) (simp_all add: wf_tensor_def numel_def fsub_def)
  show ?thesis
    by (simp add: mask_pair_to_label_def py_index_def d v mn fin Let_def del: One_nat_def)
qed

subsection \<open>An identical pair\<close>

text \<open>
  C8, as the specification states it, covers every mask list. The call returns no
  all-ones vector for the empty list (\<^verbatim>\<open>mask[-1]\<close> raises), for a mask without axes
  (\<^verbatim>\<open>size()[0]\<close> raises), for an empty batch (\<^verbatim>\<open>view(0, -1)\<close> raises), for masks without
  pixels (the mean of an empty row is nan) and for a mask that holds an infinite value
  (\<open>inf - inf\<close> is nan).
\<close>

theorem mask_pair_to_label_counterexample:
  "mask_pair_to_label [] [] None = Inl IndexError
   \<and> mask_pair_to_label [\<lparr>shape = [], vals = [Fin 1]\<rparr>] [\<lparr>shape = [], vals = [Fin 1]\<rparr>] None
       = Inl IndexError
   \<and> mask_pair_to_label [\<lparr>shape = [0, 3], vals = []\<rparr>] [\<lparr>shape = [0, 3], vals = []\<rparr>] None
       = Inl RuntimeError
   \<and> mask_pair_to_label [\<lparr>shape = [2, 0], vals = []\<rparr>] [\<lparr>shape = [2, 0], vals = []\<rparr>] None
       = Inr \<lparr>shape = [2], vals = [NaN, NaN]\<rparr>
   \<and> mask_pair_to_label [\<lparr>shape = [1, 1], vals = [PInf]\<rparr>] [\<lparr>shape = [1, 1], vals = [PInf]\<rparr>] None
       = Inr \<lparr>shape = [1], vals = [NaN]\<rparr>"
  using mask_pair_to_label_no_masks mask_pair_to_label_no_axes mask_pair_to_label_no_batch
    mask_pair_to_label_no_pixels mask_pair_to_label_infinite
  by (intro conjI)

text \<open>
  C8, amended. A mask list compared with itself gives the all-ones vector, of the length
  of the batch of its last (finest) mask, whenever the list has a last mask, that mask has
  a first axis, the batch, it holds its \<open>b * numel rest\<close> values, all of them finite, and
  neither the batch nor a mask of the batch is empty.
\<close>

theorem mask_pair_to_label_identical:
  assumes ne: "m \<noteq> []"
    and sh: "shape (last m) = b # rest"
    and wf: "wf_tensor (last m)"
    and fin: "\<forall>x \<in> set (vals (last m)). is_finite x"
    and b: "0 < b" and r: "0 < numel rest"
  shows "mask_pair_to_label m m dev = Inr \<lparr>shape = [b], vals = replicate b (Fin 1)\<rparr>"
proof -
  let ?t = "last m"
  let ?z = "\<lparr>shape = b # rest, vals = replicate (b * numel rest) (Fin 0)\<rparr>"
  have len: "length (vals ?t) = b * numel rest"
    using wf sh by (simp add: wf_tensor_def numel_def)
  have i1: "py_index m (- 1) = Inr ?t"
    using ne by (rule py_index_last)
  have i2: "py_index (shape ?t) 0 = Inr b"
    by (simp add: sh py_index_first)
  have i3: "py_index (shape ?t) (- 1) = Inr (last (b # rest))"
    unfolding sh by (rule py_index_last) simp
  have d: "tensor_sub ?t ?t = Inr ?z"
    using tensor_sub_same_shape[OF refl wf wf] by (simp add: sh map2_fsub_self[OF fin] len)
  have v: "view_rows (div_scalar (tensor_abs ?z) 2) b
         = Inr \<lparr>shape = [b, numel rest], vals = replicate (b * numel rest) (Fin 0)\<rparr>"
    using b by (simp add: view_rows_def div_scalar_def tensor_abs_def numel_def)
  have mn: "mean_dim1 \<lparr>shape = [b, numel rest], vals = replicate (b * numel rest) (Fin 0)\<rparr>
         = Inr \<lparr>shape = [b], vals = replicate b (Fin 0)\<rparr>"
    using r by (simp add: mean_dim1_def chunks_replicate fsum_zeros)
  have one: "tensor_sub (torch_ones [b]) \<lparr>shape = [b], vals = replicate b (Fin 0)\<rparr>
         = Inr \<lparr>shape = [b], vals = replicate b (Fin 1)\<rparr>"
    by (subst tensor_sub_same_shape)
       (simp_all add: torch_ones_def torch_full_def wf_tensor_def numel_def map2_fsub_replicate
          fsub_def)
  show ?thesis
    by (simp add: mask_pair_to_label_def i1 i2 i3 d v mn one Let_def)
qed

theorem mask_pair_to_label_identical_witness:
  "[\<lparr>shape = [2, 1, 1, 2], vals = [Fin 3, Fin (- 4), Fin (1 / 2), Fin 0]\<rparr>] \<noteq> []
   \<and> shape (last [\<lparr>shape = [2, 1, 1, 2], vals = [Fin 3, Fin (- 4), Fin (1 / 2), Fin 0]\<rparr>])
       = 2 # [1, 1, 2]
   \<and> wf_tensor (last [\<lparr>shape = [2, 1, 1, 2], vals = [Fin 3, Fin (- 4), Fin (1 / 2), Fin 0]\<rparr>])
   \<and> list_all is_finite
        (vals (last [\<lparr>shape = [2, 1, 1, 2], vals = [Fin 3, Fin (- 4), Fin (1 / 2), Fin 0]\<rparr>]))
   \<and> (0::nat) < 2 \<and> 0 < numel [1, 1, 2]
   \<and> mask_pair_to_label [\<lparr>shape = [2, 1, 1, 2], vals = [Fin 3, Fin (- 4), Fin (1 / 2), Fin 0]\<rparr>]
        [\<lparr>shape = [2, 1, 1, 2], vals = [Fin 3, Fin (- 4), Fin (1 / 2), Fin 0]\<rparr>] None
      = Inr \<lparr>shape = [2], vals = replicate 2 (Fin 1)\<rparr>"
proof -
  let ?t = "\<lparr>shape = [2, 1, 1, 2], vals = [Fin 3, Fin (- 4), Fin (1 / 2), Fin 0]\<rparr>"
  have h: "[?t] \<noteq> []" "shape (last [?t]) = 2 # [1, 1, 2]" "wf_tensor (last [?t])"
    "\<forall>x \<in> set (vals (last [?t])). is_finite x"
    "(0::nat) < 2" "0 < numel [1, 1, 2]"
    by (simp_all add: wf_tensor_def numel_def)
  have f: "list_all is_finite (vals (last [?t]))"
    by simp
  from mask_pair_to_label_identical[OF h, of None] h(1,2,3,5,6) f show ?thesis
    by (intro conjI)
qed

section \<open>The weight initialiser: what it changes\<close>

lemma find_from_sublist: "find_from s sub i \<noteq> - 1 \<longleftrightarrow> sublist sub s"
proof (induction s sub i rule: find_from.induct)
  case (1 sub i)
  then show ?case by simp
next
  case (2 c cs sub i)
  show ?case
  proof (cases "prefix sub (c # cs)")
    case True
    then show ?thesis by (auto simp: sublist_def prefix_def intro: exI[of _ "[]"])
  next
    case False
    then show ?thesis
      using 2 by (simp add: sublist_Cons_right)
  qed
qed

text \<open>\<^verbatim>\<open>s.find(sub) != -1\<close> says that \<open>s\<close> contains \<open>sub\<close>.\<close>

lemma str_find_contains: "str_find s sub \<noteq> - 1 \<longleftrightarrow> sublist sub s"
  by (simp add: str_find_def find_from_sublist)

text \<open>
  C9. A layer whose class name contains neither \<^verbatim>\<open>Conv\<close> nor \<^verbatim>\<open>BatchNorm\<close> is returned as it
  was. With \<^verbatim>\<open>BatchNorm\<close> and not \<^verbatim>\<open>Conv\<close> in the name, the call changes the weight (to
  the draw of mean 1 and standard deviation 0.02) and the bias (to zeros) and nothing else.
  With \<^verbatim>\<open>Conv\<close> in the name it changes the weight (mean 0, standard deviation 0.02) and
  nothing else. In every case, also when the call raises because an attribute is missing,
  the class name and all other attributes of the layer are as before, and a \<^verbatim>\<open>Conv\<close> layer
  keeps its bias.
\<close>

theorem weights_init_frame:
  fixes m :: "'a layer_scheme"
  shows
  "(\<not> sublist ''Conv'' (classname m) \<and> \<not> sublist ''BatchNorm'' (classname m)
      \<longrightarrow> weights_init m g = (m, None))
   \<and> (\<not> sublist ''Conv'' (classname m) \<and> sublist ''BatchNorm'' (classname m)
      \<longrightarrow> (\<forall>w b. weight m = Some w \<and> bias m = Some b
            \<longrightarrow> weights_init m g
                = (m\<lparr>weight := Some (normal_init w 1 0.02 g), bias := Some (constant_init b 0)\<rparr>,
                   None)))
   \<and> (sublist ''Conv'' (classname m)
      \<longrightarrow> (\<forall>w. weight m = Some w
            \<longrightarrow> weights_init m g = (m\<lparr>weight := Some (normal_init w 0 0.02 g)\<rparr>, None)))
   \<and> classname (fst (weights_init m g)) = classname m
   \<and> layer.more (fst (weights_init m g)) = layer.more m
   \<and> (sublist ''Conv'' (classname m) \<longrightarrow> bias (fst (weights_init m g)) = bias m)"
  by (auto simp: weights_init_def Let_def str_find_contains split: option.splits)

theorem weights_init_frame_witness:
  "\<not> sublist ''Conv'' (classname linear_layer) \<and> \<not> sublist ''BatchNorm'' (classname linear_layer)
   \<and> weights_init linear_layer (\<lambda>j. 1) = (linear_layer, None)
   \<and> \<not> sublist ''Conv'' (classname norm_layer) \<and> sublist ''BatchNorm'' (classname norm_layer)
   \<and> weights_init norm_layer (\<lambda>j. 1)
       = (norm_layer\<lparr>weight := Some \<lparr>shape = [2], vals = [Fin (51 / 50), Fin (51 / 50)]\<rparr>,
                     bias := Some \<lparr>shape = [2], vals = [Fin 0, Fin 0]\<rparr>\<rparr>, None)
   \<and> sublist ''Conv'' (classname conv_layer)
   \<and> weights_init conv_layer (\<lambda>j. 1)
       = (conv_layer\<lparr>weight := Some \<lparr>shape = [2], vals = [Fin (1 / 50), Fin (1 / 50)]\<rparr>\<rparr>, None)
   \<and> bias (fst (weights_init conv_layer (\<lambda>j. 1))) = bias conv_layer"
proof -
  have lin: "\<not> sublist ''Conv'' (classname linear_layer)"
    "\<not> sublist ''BatchNorm'' (classname linear_layer)"
    by (simp_all add: linear_layer_def sublist_Cons_right)
  have nrm: "\<not> sublist ''Conv'' (classname norm_layer)"
    "sublist ''BatchNorm'' (classname norm_layer)"
    "weight norm_layer = Some \<lparr>shape = [2], vals = [Fin 5, Fin 5]\<rparr>"
    "bias norm_layer = Some \<lparr>shape = [2], vals = [Fin 7, Fin 7]\<rparr>"
    by (simp_all add: norm_layer_def sublist_Cons_right)
  have cnv: "sublist ''Conv'' (classname conv_layer)"
    "weight conv_layer = Some \<lparr>shape = [2], vals = [Fin 5, Fin 5]\<rparr>"
    by (simp_all add: conv_layer_def sublist_Cons_right)
  have n1: "normal_init \<lparr>shape = [2], vals = [Fin 5, Fin 5]\<rparr> 1 (1 / 50) (\<lambda>j. 1)
          = \<lparr>shape = [2], vals = [Fin (51 / 50), Fin (51 / 50)]\<rparr>"
    and n0: "normal_init \<lparr>shape = [2], vals = [Fin 5, Fin 5]\<rparr> 0 (1 / 50) (\<lambda>j. 1)
          = \<lparr>shape = [2], vals = [Fin (1 / 50), Fin (1 / 50)]\<rparr>"
    and c0: "constant_init \<lparr>shape = [2], vals = [Fin 7, Fin 7]\<rparr> 0 = \<lparr>shape = [2], vals = [Fin 0, Fin 0]\<rparr>"
    by (simp_all add: normal_init_def constant_init_def numel_def upt_rec numeral_2_eq_2)
  show ?thesis
    using weights_init_frame[of linear_layer "\<lambda>j. 1"] weights_init_frame[of norm_layer "\<lambda>j. 1"]
      weights_init_frame[of conv_layer "\<lambda>j. 1"] lin nrm cnv
    by (simp add: n1 n0 c0)
qed

section \<open>The eager constructor\<close>

lemma count_decoded_Nil: "count_decoded L P [] = 0"
  by (simp add: count_decoded_def)

lemma count_decoded_Cons:
  "count_decoded L P (p # ps) =
     (case imread L p False of Inl e \<Rightarrow> 0 | Inr img \<Rightarrow> if P img then 1 else 0)
     + count_decoded L P ps"
  by (simp add: count_decoded_def split: sum.splits)

text \<open>
  The loop keeps its books: every path it has passed either took one from \<open>len\<close> or
  added one image and one mask list.
\<close>

lemma load_images_counts:
  assumes "load_images L mp i paths self = Inr ds"
  shows "len ds = len self - int (length paths) + int (count_decoded L three_axes paths)
       \<and> length (self_image ds) = length (self_image self) + count_decoded L three_axes paths
       \<and> length (self_mask ds) = length (self_mask self) + count_decoded L three_axes paths
       \<and> in_memory ds = in_memory self"
  using assms
proof (induction paths arbitrary: i self)
  case Nil
  then show ?case by (simp add: count_decoded_Nil)
next
  case (Cons p ps)
  from Cons.prems obtain img where img: "imread L p False = Inr img"
    by (auto split: sum.splits)
  show ?case
  proof (cases "length (shape img) = 3")
    case False
    with Cons.prems img
    have "load_images L mp (Suc i) ps (self\<lparr>len := len self - 1\<rparr>) = Inr ds"
      by simp
    from Cons.IH[OF this] False img show ?thesis
      by (simp add: count_decoded_Cons three_axes_def)
  next
    case True
    with Cons.prems img obtain img' masks where
      step: "load_images L mp (Suc i) ps
               (self\<lparr>self_image := self_image self @ [img'], self_mask := self_mask self @ [masks]\<rparr>)
             = Inr ds"
      by (auto simp: Let_def split: sum.splits option.splits)
    from Cons.IH[OF step] True img show ?thesis
      by (simp add: count_decoded_Cons three_axes_def)
  qed
qed

lemma count_decoded_split:
  assumes "\<forall>p \<in> set paths. \<not> isl (imread L p False)"
  shows "count_decoded L P paths + count_decoded L (\<lambda>img. \<not> P img) paths = length paths"
  using assms
  by (induction paths) (auto simp: count_decoded_Nil count_decoded_Cons split: sum.splits)

lemma load_images_decodes:
  assumes "load_images L mp i paths self = Inr ds"
  shows "\<forall>p \<in> set paths. \<not> isl (imread L p False)"
  using assms
proof (induction paths arbitrary: i self)
  case Nil
  then show ?case by simp
next
  case (Cons p ps)
  from Cons.prems obtain img where img: "imread L p False = Inr img"
    by (auto split: sum.splits)
  from Cons.prems img obtain self' where "load_images L mp (Suc i) ps self' = Inr ds"
    by (auto simp: Let_def split: sum.splits option.splits if_splits)
  from Cons.IH[OF this] img show ?case by simp
qed

subsection \<open>One round of the loop\<close>

lemma get_mask_config: "same_config s1 s2 \<Longrightarrow> get_mask L s1 m sz = get_mask L s2 m sz"
  by (simp add: get_mask_def same_config_def split: sum.splits option.splits)

lemma masks_loop_config:
  "same_config s1 s2 \<Longrightarrow> masks_loop L s1 m sizes acc = masks_loop L s2 m sizes acc"
  by (induction sizes arbitrary: acc) (simp_all add: get_mask_config[of s1 s2] split: sum.splits)

lemma sized_masks_config: "same_config s1 s2 \<Longrightarrow> sized_masks L s1 m = sized_masks L s2 m"
  using masks_loop_config[of s1 s2]
  by (simp add: sized_masks_def same_config_def split: option.splits)

lemma get_empty_masks_config: "same_config s1 s2 \<Longrightarrow> get_empty_masks s1 = get_empty_masks s2"
  by (simp add: get_empty_masks_def same_config_def)

lemma eager_sample_config:
  "same_config s1 s2 \<Longrightarrow> eager_sample L s1 mp i img = eager_sample L s2 mp i img"
  using sized_masks_config[of s1 s2] get_empty_masks_config[of s1 s2]
  by (simp add: eager_sample_def same_config_def split: sum.splits option.splits)

lemma entry_ok_config: "same_config s1 s2 \<Longrightarrow> entry_ok L s1 mp = entry_ok L s2 mp"
  by (rule ext) (simp add: entry_ok_def eager_sample_config[of s1 s2] split: sum.splits)

lemma eager_entry_config: "same_config s1 s2 \<Longrightarrow> eager_entry L s1 mp = eager_entry L s2 mp"
  by (rule ext) (simp add: eager_entry_def eager_sample_config[of s1 s2] split: sum.splits)

lemma same_config_updates [simp]:
  "same_config (s\<lparr>len := n\<rparr>) s"
  "same_config (s\<lparr>self_image := xs\<rparr>) s"
  "same_config (s\<lparr>self_image := xs, self_mask := ys\<rparr>) s"
  "same_config (s\<lparr>image_paths := ps, mask_paths := qs\<rparr>) s"
  "same_config s s"
  by (simp_all add: same_config_def)

lemma same_config_trans: "same_config a b \<Longrightarrow> same_config b c \<Longrightarrow> same_config a c"
  by (simp add: same_config_def)

lemma load_images_Cons:
  "load_images L mp i (p # rest) self =
     (case imread L p False of
        Inl e \<Rightarrow> Inl e
      | Inr img \<Rightarrow>
          if \<not> three_axes img
          then load_images L mp (Suc i) rest (self\<lparr>len := len self - 1\<rparr>)
          else (case eager_sample L self mp i img of
                  Inl e \<Rightarrow> Inl e
                | Inr s \<Rightarrow> load_images L mp (Suc i) rest
                     (self\<lparr>self_image := self_image self @ [fst s],
                           self_mask := self_mask self @ [snd s]\<rparr>)))"
proof -
  have c: "\<And>x. same_config (self\<lparr>self_image := x\<rparr>) self" by simp
  show ?thesis
    by (simp add: eager_sample_def three_axes_def Let_def
        get_empty_masks_config[OF c] sized_masks_config[OF c]
        split: sum.splits option.splits)
qed

declare load_images.simps(2) [simp del]

text \<open>
  The constructor raises exactly when some path cannot be read or the round of an image
  it keeps raises: an image it skips raises nothing.
\<close>

lemma load_images_succeeds_iff:
  "(\<exists>ds. load_images L mp i paths self = Inr ds)
     \<longleftrightarrow> list_all (entry_ok L self mp) (enumerate i paths)"
proof (induction paths arbitrary: i self)
  case Nil
  then show ?case by simp
next
  case (Cons p ps)
  show ?case
  proof (cases "imread L p False")
    case (Inl e)
    then show ?thesis by (simp add: load_images_Cons entry_ok_def)
  next
    case (Inr img)
    show ?thesis
    proof (cases "three_axes img")
      case False
      then show ?thesis
        using Inr Cons.IH[of "Suc i" "self\<lparr>len := len self - 1\<rparr>"]
        by (simp add: load_images_Cons entry_ok_def[of L self mp "(i, p)"]
            entry_ok_config[of "self\<lparr>len := len self - 1\<rparr>" self])
    next
      case True
      show ?thesis
      proof (cases "eager_sample L self mp i img")
        case (Inl e)
        then show ?thesis
          using Inr True by (simp add: load_images_Cons entry_ok_def[of L self mp "(i, p)"])
      next
        case s: (Inr s)
        let ?self = "self\<lparr>self_image := self_image self @ [fst s],
                           self_mask := self_mask self @ [snd s]\<rparr>"
        show ?thesis
          using Inr True s Cons.IH[of "Suc i" ?self]
          by (simp add: load_images_Cons entry_ok_def[of L self mp "(i, p)"]
              entry_ok_config[of ?self self])
      qed
    qed
  qed
qed

text \<open>When no image is skipped, the two lists hold the rounds' results in the order of the paths.\<close>

lemma load_images_all_kept:
  assumes "load_images L mp i paths self = Inr ds"
    and "\<forall>p \<in> set paths. \<forall>img. imread L p False = Inr img \<longrightarrow> three_axes img"
  shows "\<exists>samples. self_image ds = self_image self @ map fst samples
           \<and> self_mask ds = self_mask self @ map snd samples
           \<and> map Inr samples = map (eager_entry L self mp) (enumerate i paths)
           \<and> same_config ds self \<and> len ds = len self \<and> in_memory ds = in_memory self"
  using assms
proof (induction paths arbitrary: i self)
  case Nil
  then show ?case by simp
next
  case (Cons p ps)
  from Cons.prems(1) obtain img where img: "imread L p False = Inr img"
    by (auto simp: load_images_Cons split: sum.splits)
  with Cons.prems(2) have ax: "three_axes img" by simp
  from Cons.prems(1) img ax obtain s where s: "eager_sample L self mp i img = Inr s"
    by (auto simp: load_images_Cons split: sum.splits)
  let ?self = "self\<lparr>self_image := self_image self @ [fst s],
                     self_mask := self_mask self @ [snd s]\<rparr>"
  from Cons.prems(1) img ax s have step: "load_images L mp (Suc i) ps ?self = Inr ds"
    by (simp add: load_images_Cons)
  from Cons.prems(2) have rest: "\<forall>p \<in> set ps. \<forall>img. imread L p False = Inr img \<longrightarrow> three_axes img"
    by simp
  from Cons.IH[OF step rest] obtain samples where
    a: "self_image ds = self_image ?self @ map fst samples"
    and b: "self_mask ds = self_mask ?self @ map snd samples"
    and c: "map Inr samples = map (eager_entry L ?self mp) (enumerate (Suc i) ps)"
    and d: "same_config ds ?self" "len ds = len ?self" "in_memory ds = in_memory ?self"
    by blast
  have cfg: "same_config ?self self" by simp
  have "map Inr (s # samples) = map (eager_entry L self mp) (enumerate i (p # ps))"
    using c img s by (simp add: eager_entry_config[OF cfg] eager_entry_def[of L self mp "(i, p)"])
  moreover have "self_image ds = self_image self @ map fst (s # samples)"
    using a by simp
  moreover have "self_mask ds = self_mask self @ map snd (s # samples)"
    using b by simp
  moreover have "same_config ds self"
    using d(1) cfg by (rule same_config_trans)
  ultimately show ?case
    using d(2,3) by (intro exI[of _ "s # samples"]) simp
qed

subsection \<open>The constructor and the lookup\<close>

lemma eager_init_loop:
  "flower_dataset_init L paths mp ms tr mtr True
     = load_images L mp 0 paths (new_self paths ms tr mtr True)"
  by (simp add: flower_dataset_init_def new_self_def Let_def)

lemma lazy_init:
  "flower_dataset_init L paths mp ms tr mtr False
     = Inr ((new_self paths ms tr mtr False)
         \<lparr>image_paths := paths,
          mask_paths := (case mp of None \<Rightarrow> replicate (length paths) None
                         | Some mps \<Rightarrow> map Some mps)\<rparr>)"
  by (simp add: flower_dataset_init_def new_self_def Let_def split: option.splits)

lemma new_self_fields [simp]:
  "len (new_self paths ms tr mtr mem) = int (length paths)"
  "transform (new_self paths ms tr mtr mem) = tr"
  "mask_transform (new_self paths ms tr mtr mem) = mtr"
  "mask_sizes (new_self paths ms tr mtr mem) = ms"
  "in_memory (new_self paths ms tr mtr mem) = mem"
  "self_image (new_self paths ms tr mtr mem) = []"
  "self_mask (new_self paths ms tr mtr mem) = []"
  by (simp_all add: new_self_def)

lemma py_index_nat: "j < length xs \<Longrightarrow> py_index xs (int j) = Inr (xs ! j)"
  by (simp add: py_index_def)

lemma py_index_nat_Inr: "py_index xs (int j) = Inr x \<Longrightarrow> j < length xs \<and> x = xs ! j"
  by (simp add: py_index_def split: if_splits)

subsection \<open>The example datasets\<close>

lemma empty_mask_eval:
  "neg (torch_ones [1, 2, 2]) = empty_mask2"
  "neg (torch_ones [Suc 0, 2, 2]) = empty_mask2"
  unfolding neg_def torch_ones_def torch_full_def numel_def empty_mask2_def
  by (simp_all add: eval_nat_numeral)

lemma demo_imread [simp]:
  "imread demo_library ''rgb.png'' g = Inr rgb_image"
  "imread demo_library ''rgba.png'' g = Inr rgba_image"
  "imread demo_library ''gray.png'' g = Inr gray_image"
  by (simp_all add: demo_library_def)

lemma demo_axes [simp]:
  "three_axes rgb_image" "three_axes rgba_image" "\<not> three_axes gray_image"
  "\<not> spec_three_channels rgba_image" "spec_three_channels rgb_image"
  by (simp_all add: three_axes_def spec_three_channels_def rgb_image_def rgba_image_def
      gray_image_def)

lemma demo_resize:
  "resize demo_library gray_image (2, 2) = Inr \<lparr>shape = [2, 2], vals = [Fin 9, Fin 9, Fin 9, Fin 9]\<rparr>"
  "astype_float32 demo_library t = t"
  unfolding demo_library_def gray_image_def numel_def
  by (simp_all add: eval_nat_numeral)

lemma demo_eager_built:
  "flower_dataset_init demo_library demo_paths None (Some [2]) None None True = Inr demo_eager_ds"
  by (simp add: eager_init_loop demo_paths_def load_images_Cons eager_sample_def apply_opt_def
      get_empty_masks_def empty_mask_eval new_self_def demo_eager_ds_def)

lemma demo_lazy_built:
  "flower_dataset_init demo_library demo_paths None (Some [2]) None None False = Inr demo_lazy_ds"
  by (simp add: lazy_init demo_paths_def new_self_def demo_lazy_ds_def numeral_2_eq_2)

lemma rgba_built:
  "flower_dataset_init demo_library [''rgba.png''] None (Some []) None None True = Inr rgba_ds"
  by (simp add: eager_init_loop load_images_Cons eager_sample_def apply_opt_def
      get_empty_masks_def new_self_def rgba_ds_def)

lemma masked_eager_built:
  "flower_dataset_init demo_library [''rgb.png''] (Some [''gray.png'']) (Some [2]) None None True
     = Inr masked_eager_ds"
  by (simp add: eager_init_loop load_images_Cons eager_sample_def apply_opt_def py_index_def
      sized_masks_def get_mask_def demo_resize new_self_def masked_eager_ds_def)

lemma masked_lazy_built:
  "flower_dataset_init demo_library [''rgb.png''] (Some [''gray.png'']) (Some [2]) None None False
     = Inr masked_lazy_ds"
  by (simp add: lazy_init new_self_def masked_lazy_ds_def)

subsection \<open>Length and contents of an eager dataset\<close>

text \<open>
  C10. After a successful eager construction the image list and the mask list are as
  long as \<^verbatim>\<open>__len__\<close> says, so the lookup at every index from 0 up to the length returns the
  pair stored there and raises nothing.
\<close>

theorem eager_lists_match_len:
  assumes "flower_dataset_init L paths mp ms tr mtr True = Inr ds"
  shows "int (length (self_image ds)) = dataset_len ds
       \<and> int (length (self_mask ds)) = dataset_len ds
       \<and> (\<forall>idx. 0 \<le> idx \<and> idx < dataset_len ds
            \<longrightarrow> getitem L ds idx = Inr (self_image ds ! nat idx, self_mask ds ! nat idx))"
proof -
  from assms have "load_images L mp 0 paths (new_self paths ms tr mtr True) = Inr ds"
    by (simp add: eager_init_loop)
  from load_images_counts[OF this]
  have "len ds = int (length (self_image ds))" "length (self_mask ds) = length (self_image ds)"
    "in_memory ds"
    by simp_all
  then show ?thesis
    by (simp add: dataset_len_def getitem_def py_index_def)
qed

theorem eager_lists_match_len_witness:
  "flower_dataset_init demo_library demo_paths None (Some [2]) None None True = Inr demo_eager_ds
   \<and> int (length (self_image demo_eager_ds)) = dataset_len demo_eager_ds
   \<and> int (length (self_mask demo_eager_ds)) = dataset_len demo_eager_ds
   \<and> (0::int) \<le> 0 \<and> 0 < dataset_len demo_eager_ds
   \<and> getitem demo_library demo_eager_ds 0
       = Inr (self_image demo_eager_ds ! nat 0, self_mask demo_eager_ds ! nat 0)"
proof -
  have "0 < dataset_len demo_eager_ds"
    by (simp add: dataset_len_def demo_eager_ds_def)
  with eager_lists_match_len[OF demo_eager_built] demo_eager_built show ?thesis
    by simp
qed

text \<open>
  C1, as the specification states it, counts the images of exactly 3 channels. The
  constructor tests the number of axes, not of channels: an RGBA file decodes to an array
  of 3 axes and 4 channels, and it is kept. The dataset built from that one file has
  length 1, while no supplied image has exactly 3 channels.
\<close>

theorem eager_len_three_channels_counterexample:
  "flower_dataset_init demo_library [''rgba.png''] None (Some []) None None True = Inr rgba_ds
   \<and> dataset_len rgba_ds = 1
   \<and> count_decoded demo_library spec_three_channels [''rgba.png''] = 0"
  by (simp add: rgba_built dataset_len_def rgba_ds_def count_decoded_def)

text \<open>
  C1, amended. The length of an eagerly built dataset is the number of supplied paths
  whose decoded array has exactly 3 axes; it is the number of paths less one for every
  array of another rank, and that many images are stored. An array of another rank is
  skipped without an exception: the construction succeeds exactly when every path can
  be read and the round of every image of 3 axes (its transform and its masks) raises
  nothing, whatever the skipped images are.
\<close>

theorem eager_len_counts_three_axes:
  "(\<forall>ds. flower_dataset_init L paths mp ms tr mtr True = Inr ds \<longrightarrow>
       dataset_len ds = int (count_decoded L three_axes paths)
     \<and> dataset_len ds = int (length paths) - int (count_decoded L (\<lambda>img. \<not> three_axes img) paths)
     \<and> length (self_image ds) = count_decoded L three_axes paths)
   \<and> ((\<exists>ds. flower_dataset_init L paths mp ms tr mtr True = Inr ds)
        \<longleftrightarrow> list_all (entry_ok L (new_self paths ms tr mtr True) mp) (enumerate 0 paths))"
proof (intro conjI allI impI)
  fix ds assume "flower_dataset_init L paths mp ms tr mtr True = Inr ds"
  then have loop: "load_images L mp 0 paths (new_self paths ms tr mtr True) = Inr ds"
    by (simp add: eager_init_loop)
  from load_images_counts[OF loop]
  show c: "dataset_len ds = int (count_decoded L three_axes paths)"
    and "length (self_image ds) = count_decoded L three_axes paths"
    by (simp_all add: dataset_len_def)
  from count_decoded_split[OF load_images_decodes[OF loop], of three_axes]
  show "dataset_len ds = int (length paths) - int (count_decoded L (\<lambda>img. \<not> three_axes img) paths)"
    using c by simp
next
  show "(\<exists>ds. flower_dataset_init L paths mp ms tr mtr True = Inr ds)
        \<longleftrightarrow> list_all (entry_ok L (new_self paths ms tr mtr True) mp) (enumerate 0 paths)"
    by (simp add: eager_init_loop load_images_succeeds_iff)
qed

theorem eager_len_counts_three_axes_witness:
  "flower_dataset_init demo_library demo_paths None (Some [2]) None None True = Inr demo_eager_ds
   \<and> dataset_len demo_eager_ds = int (count_decoded demo_library three_axes demo_paths)
   \<and> dataset_len demo_eager_ds
       = int (length demo_paths) - int (count_decoded demo_library (\<lambda>img. \<not> three_axes img) demo_paths)
   \<and> length (self_image demo_eager_ds) = count_decoded demo_library three_axes demo_paths
   \<and> count_decoded demo_library three_axes demo_paths = 1
   \<and> list_all (entry_ok demo_library (new_self demo_paths (Some [2]) None None True) None)
        (enumerate 0 demo_paths)"
proof -
  have "count_decoded demo_library three_axes demo_paths = 1"
    by (simp add: count_decoded_def demo_paths_def)
  with eager_len_counts_three_axes[of demo_library demo_paths None "Some [2]" None None]
    demo_eager_built
  show ?thesis by simp
qed

text \<open>
  A grayscale file alone gives the empty dataset, also with the default
  \<^verbatim>\<open>mask_sizes=None\<close>, with which the round of a kept image would raise.
\<close>

lemma skipped_image_raises_nothing:
  "flower_dataset_init demo_library [''gray.png''] None None None None True
     = Inr (new_self [] None None None True)
   \<and> flower_dataset_init demo_library [''rgb.png''] None None None None True = Inl TypeError"
  by (simp add: eager_init_loop load_images_Cons eager_sample_def apply_opt_def
      get_empty_masks_def new_self_def)

lemma get_empty_masks_8_16:
  "mask_sizes self = Some [8, 16] \<Longrightarrow> get_empty_masks self = Inr empty_masks_8_16"
  by (simp add: get_empty_masks_def neg_def torch_ones_def torch_full_def numel_def
      empty_masks_8_16_def)

lemma spec_three_channels_axes: "spec_three_channels img \<Longrightarrow> three_axes img"
  by (auto simp: spec_three_channels_def three_axes_def split: list.splits)

text \<open>
  C3. Three paths that decode to arrays of 3 axes (as every RGB image does), no mask
  paths and the mask sizes 8 and 16: the construction succeeds, the length is 3, and the
  lookup at 0, 1 and 2 returns the (transformed) image with the two masks of shapes
  \<open>(1, 8, 8)\<close> and \<open>(1, 16, 16)\<close> whose values are all \<open>-1\<close>. The transform may be \<^verbatim>\<open>None\<close> or
  any function that succeeds on the three images.
\<close>

theorem three_images_empty_masks:
  assumes d: "imread L p0 False = Inr a0" "imread L p1 False = Inr a1" "imread L p2 False = Inr a2"
    and ax: "three_axes a0" "three_axes a1" "three_axes a2"
    and t: "apply_opt tr a0 = Inr b0" "apply_opt tr a1 = Inr b1" "apply_opt tr a2 = Inr b2"
  shows "\<exists>ds. flower_dataset_init L [p0, p1, p2] None (Some [8, 16]) tr mtr True = Inr ds
           \<and> dataset_len ds = 3
           \<and> getitem L ds 0 = Inr (b0, empty_masks_8_16)
           \<and> getitem L ds 1 = Inr (b1, empty_masks_8_16)
           \<and> getitem L ds 2 = Inr (b2, empty_masks_8_16)"
proof -
  let ?s = "new_self [p0, p1, p2] (Some [8, 16]) tr mtr True"
  let ?ds = "?s\<lparr>self_image := [b0, b1, b2],
                 self_mask := [empty_masks_8_16, empty_masks_8_16, empty_masks_8_16]\<rparr>"
  have smp: "\<And>s i img. same_config s ?s \<Longrightarrow>
       eager_sample L s None i img
         = (case apply_opt tr img of Inl e \<Rightarrow> Inl e | Inr img' \<Rightarrow> Inr (img', empty_masks_8_16))"
    by (simp add: eager_sample_def same_config_def get_empty_masks_8_16 split: sum.splits)
  have built: "flower_dataset_init L [p0, p1, p2] None (Some [8, 16]) tr mtr True = Inr ?ds"
    by (simp add: eager_init_loop load_images_Cons d ax t smp same_config_def)
  have "dataset_len ?ds = 3"
    by (simp add: dataset_len_def)
  moreover have "getitem L ?ds 0 = Inr (b0, empty_masks_8_16)"
    "getitem L ?ds 1 = Inr (b1, empty_masks_8_16)"
    "getitem L ?ds 2 = Inr (b2, empty_masks_8_16)"
    by (simp_all add: getitem_def py_index_def)
  ultimately show ?thesis
    using built by blast
qed

theorem three_images_empty_masks_witness:
  "imread demo_library ''rgb.png'' False = Inr rgb_image
   \<and> three_axes rgb_image \<and> spec_three_channels rgb_image
   \<and> apply_opt None rgb_image = Inr rgb_image
   \<and> (\<exists>ds. flower_dataset_init demo_library [''rgb.png'', ''rgb.png'', ''rgb.png''] None
              (Some [8, 16]) None None True = Inr ds
           \<and> dataset_len ds = 3
           \<and> getitem demo_library ds 0 = Inr (rgb_image, empty_masks_8_16)
           \<and> getitem demo_library ds 1 = Inr (rgb_image, empty_masks_8_16)
           \<and> getitem demo_library ds 2 = Inr (rgb_image, empty_masks_8_16))"
proof -
  have h: "imread demo_library ''rgb.png'' False = Inr rgb_image" "three_axes rgb_image"
    "apply_opt None rgb_image = Inr rgb_image"
    by (simp_all add: apply_opt_def)
  from three_images_empty_masks[OF h(1) h(1) h(1) h(2) h(2) h(2) h(3) h(3) h(3)] h
  show ?thesis by simp
qed

subsection \<open>Eager and lazy lookups\<close>

text \<open>
  C2, as the specification states it, fails on a grayscale file: the eager constructor
  drops it and the lazy one does not, so the later images sit at other indices. Built from
  the grayscale and the RGB file, both datasets have an index 0; the eager one returns the
  RGB image there and the lazy one the grayscale image.
\<close>

theorem eager_lazy_counterexample:
  "flower_dataset_init demo_library demo_paths None (Some [2]) None None True = Inr demo_eager_ds
   \<and> flower_dataset_init demo_library demo_paths None (Some [2]) None None False = Inr demo_lazy_ds
   \<and> 0 < dataset_len demo_eager_ds \<and> 0 < dataset_len demo_lazy_ds
   \<and> getitem demo_library demo_eager_ds 0 = Inr (rgb_image, [empty_mask2])
   \<and> getitem demo_library demo_lazy_ds 0 = Inr (gray_image, [empty_mask2])
   \<and> rgb_image \<noteq> gray_image"
proof -
  have a: "getitem demo_library demo_eager_ds 0 = Inr (rgb_image, [empty_mask2])"
    by (simp add: getitem_def py_index_def demo_eager_ds_def)
  have b: "getitem demo_library demo_lazy_ds 0 = Inr (gray_image, [empty_mask2])"
    by (simp add: getitem_def py_index_def demo_lazy_ds_def demo_paths_def apply_opt_def
        get_empty_masks_def empty_mask_eval)
  have c: "rgb_image \<noteq> gray_image"
    by (simp add: rgb_image_def gray_image_def)
  have d: "0 < dataset_len demo_eager_ds" "0 < dataset_len demo_lazy_ds"
    by (simp_all add: dataset_len_def demo_eager_ds_def demo_lazy_ds_def)
  from demo_eager_built demo_lazy_built a b c d show ?thesis
    by (intro conjI)
qed

text \<open>
  C2, amended. When every supplied image decodes to an array of 3 axes, so that the eager
  constructor skips none, and every mask file decodes to the same array with
  \<^verbatim>\<open>as_gray=True\<close> as without it (or there are no mask paths), the two datasets have the same
  length, and at every index from 0 up to that length the lazy lookup returns the pair the
  eager lookup returns, and neither raises. What the two lookups return for a mask file
  that \<^verbatim>\<open>as_gray\<close> changes is left open.
\<close>

theorem eager_lazy_agree:
  assumes eager: "flower_dataset_init L paths mp ms tr mtr True = Inr de"
    and lazy: "flower_dataset_init L paths mp ms tr mtr False = Inr dl"
    and axes: "\<forall>p \<in> set paths. \<forall>img. imread L p False = Inr img \<longrightarrow> three_axes img"
    and gray: "\<forall>mps. mp = Some mps \<longrightarrow> (\<forall>q \<in> set mps. imread L q True = imread L q False)"
    and idx: "0 \<le> idx" "idx < dataset_len de"
  shows "getitem L dl idx = getitem L de idx \<and> \<not> isl (getitem L de idx)
       \<and> dataset_len dl = dataset_len de"
proof -
  let ?s = "new_self paths ms tr mtr True"
  let ?mps = "case mp of None \<Rightarrow> replicate (length paths) None | Some mps \<Rightarrow> map Some mps"
  from eager have loop: "load_images L mp 0 paths ?s = Inr de"
    by (simp add: eager_init_loop)
  from load_images_all_kept[OF loop axes] obtain samples where
    im: "self_image de = map fst samples" and mk: "self_mask de = map snd samples"
    and sm: "map Inr samples = map (eager_entry L ?s mp) (enumerate 0 paths)"
    and cf: "same_config de ?s" and ln: "len de = int (length paths)" and mem: "in_memory de"
    by auto
  have n: "length samples = length paths"
    using arg_cong[OF sm, of length] by simp
  define j where "j = nat idx"
  have j: "j < length paths" "idx = int j"
    using idx ln by (simp_all add: j_def dataset_len_def)
  have "map Inr samples ! j = map (eager_entry L ?s mp) (enumerate 0 paths) ! j"
    by (simp only: sm)
  then have entry: "eager_entry L ?s mp (j, paths ! j) = Inr (samples ! j)"
    using j n by (simp add: nth_enumerate_eq)
  have e: "getitem L de idx = Inr (samples ! j)"
    using j n mem by (simp add: getitem_def py_index_nat im mk)
  from lazy have dl: "dl = ?s\<lparr>in_memory := False, image_paths := paths, mask_paths := ?mps\<rparr>"
    by (simp add: lazy_init new_self_def)
  have cfl: "same_config dl ?s"
    by (simp add: dl same_config_def)
  from entry obtain img where img: "imread L (paths ! j) False = Inr img"
    and smp: "eager_sample L ?s mp j img = Inr (samples ! j)"
    by (auto simp: eager_entry_def split: sum.splits)
  from smp obtain img' where tr: "apply_opt tr img = Inr img'"
    by (auto simp: eager_sample_def split: sum.splits)
  have l: "getitem L dl idx = Inr (samples ! j)"
  proof (cases mp)
    case None
    with smp tr obtain masks where "get_empty_masks ?s = Inr masks" "samples ! j = (img', masks)"
      by (auto simp: eager_sample_def split: sum.splits)
    then show ?thesis
      using j img tr None get_empty_masks_config[OF cfl]
      by (simp add: getitem_def dl py_index_nat)
  next
    case (Some mps)
    with smp tr obtain q m masks where q: "py_index mps (int j) = Inr q"
      and m: "imread L q True = Inr m"
      and ms: "sized_masks L ?s m = Inr masks" "samples ! j = (img', masks)"
      by (auto simp: eager_sample_def split: sum.splits)
    from py_index_nat_Inr[OF q] have jq: "j < length mps" "q = mps ! j"
      by simp_all
    then have "q \<in> set mps" by simp
    with gray Some m have m': "imread L q False = Inr m" by simp
    show ?thesis
      using j jq img tr Some m' ms sized_masks_config[OF cfl]
      by (simp add: getitem_def dl py_index_nat)
  qed
  show ?thesis
    using e l ln by (simp add: dl dataset_len_def)
qed

theorem eager_lazy_agree_witness:
  "flower_dataset_init demo_library [''rgb.png''] (Some [''gray.png'']) (Some [2]) None None True
     = Inr masked_eager_ds
   \<and> flower_dataset_init demo_library [''rgb.png''] (Some [''gray.png'']) (Some [2]) None None False
     = Inr masked_lazy_ds
   \<and> (0::int) \<le> 0 \<and> 0 < dataset_len masked_eager_ds
   \<and> getitem demo_library masked_lazy_ds 0 = getitem demo_library masked_eager_ds 0
   \<and> \<not> isl (getitem demo_library masked_eager_ds 0)
   \<and> dataset_len masked_lazy_ds = dataset_len masked_eager_ds"
proof -
  have axes: "\<forall>p \<in> set [''rgb.png'']. \<forall>img. imread demo_library p False = Inr img \<longrightarrow> three_axes img"
    by auto
  have gray: "\<forall>mps. Some [''gray.png''] = Some mps
                \<longrightarrow> (\<forall>q \<in> set mps. imread demo_library q True = imread demo_library q False)"
    by auto
  have idx: "(0::int) \<le> 0" "0 < dataset_len masked_eager_ds"
    by (simp_all add: dataset_len_def masked_eager_ds_def)
  from eager_lazy_agree[OF masked_eager_built masked_lazy_built axes gray idx]
    masked_eager_built masked_lazy_built idx
  show ?thesis by (intro conjI) simp_all
qed

lemma demo_mask_file:
  "imread demo_library ''mask.png'' True = Inr \<lparr>shape = [1, 1], vals = [Fin (1 / 2)]\<rparr>"
  "imread demo_library ''mask.png'' False = Inr \<lparr>shape = [1, 1, 3], vals = [Fin 0, Fin 128, Fin 255]\<rparr>"
  by (simp_all add: demo_library_def)

lemma demo_mask_resize:
  "resize demo_library \<lparr>shape = [1, 1], vals = [Fin (1 / 2)]\<rparr> (2, 2)
     = Inr \<lparr>shape = [2, 2], vals = [Fin (1 / 2), Fin (1 / 2), Fin (1 / 2), Fin (1 / 2)]\<rparr>"
  "resize demo_library \<lparr>shape = [1, 1, 3], vals = [Fin 0, Fin 128, Fin 255]\<rparr> (2, 2)
     = Inr \<lparr>shape = [2, 2, 3], vals = replicate 12 (Fin 0)\<rparr>"
  "resize demo_library \<lparr>shape = [Suc 0, Suc 0], vals = [Fin (1 / 2)]\<rparr> (2, 2)
     = Inr \<lparr>shape = [2, 2], vals = [Fin (1 / 2), Fin (1 / 2), Fin (1 / 2), Fin (1 / 2)]\<rparr>"
  "resize demo_library \<lparr>shape = [Suc 0, Suc 0, 3], vals = [Fin 0, Fin 128, Fin 255]\<rparr> (2, 2)
     = Inr \<lparr>shape = [2, 2, 3], vals = replicate 12 (Fin 0)\<rparr>"
  unfolding demo_library_def numel_def
  by (simp_all add: eval_nat_numeral)

text \<open>
  The hypothesis on the mask files is needed: the eager constructor reads a mask with
  \<^verbatim>\<open>as_gray=True\<close> and the lazy lookup reads it without, so that a mask file which the flag
  changes gives the two datasets different masks at the same index.
\<close>

lemma mask_flag_changes_lookup:
  "(case flower_dataset_init demo_library [''rgb.png''] (Some [''mask.png'']) (Some [2]) None None True of
      Inl e \<Rightarrow> Inl e | Inr ds \<Rightarrow> getitem demo_library ds 0)
     = Inr (rgb_image, [\<lparr>shape = [2, 2], vals = [Fin (1 / 2), Fin (1 / 2), Fin (1 / 2), Fin (1 / 2)]\<rparr>])
   \<and> (case flower_dataset_init demo_library [''rgb.png''] (Some [''mask.png'']) (Some [2]) None None False of
      Inl e \<Rightarrow> Inl e | Inr ds \<Rightarrow> getitem demo_library ds 0)
     = Inr (rgb_image, [\<lparr>shape = [2, 2, 3], vals = replicate 12 (Fin 0)\<rparr>])"
  by (simp add: eager_init_loop lazy_init load_images_Cons eager_sample_def apply_opt_def
      py_index_def sized_masks_def get_mask_def demo_mask_file demo_mask_resize demo_resize(2)
      getitem_def)

section \<open>The mask sampler: what it returns\<close>

lemma length_concat_const: "(\<forall>x \<in> set xss. length x = c) \<Longrightarrow> length (concat xss) = length xss * c"
  by (induction xss) simp_all

lemma length_concat_replicate: "length (concat (replicate t xs)) = t * length xs"
  by (induction t) simp_all

lemma chunk_length:
  assumes "length xs = n * c" "ys \<in> set (chunks c n xs)"
  shows "length ys = c"
proof -
  from assms(2) obtain j where j: "j < n" and ys: "ys = take c (drop (j * c) xs)"
    by (auto simp: chunks_def)
  have "j * c + c \<le> n * c"
    using j by (metis Suc_leI mult_Suc mult_le_mono1 add.commute)
  then show ?thesis
    using assms(1) ys by simp
qed

lemma expand_vals_length:
  assumes "list_all2 (\<lambda>t s. s = t \<or> s = 1) ts ss" "length xs = numel ss"
  shows "length (expand_vals ts ss xs) = numel ts"
  using assms
proof (induction ts ss arbitrary: xs rule: list_all2_induct)
  case Nil
  then show ?case by (simp add: numel_def)
next
  case (Cons t ts s ss)
  show ?case
  proof (cases "s = t")
    case True
    have len: "length xs = t * numel ss"
      using Cons.prems True by (simp add: numel_def)
    have "\<forall>ys \<in> set (map (expand_vals ts ss) (chunks (numel ss) t xs)). length ys = numel ts"
      using Cons.IH chunk_length[OF len] by auto
    from length_concat_const[OF this] True show ?thesis
      by (simp add: chunks_def numel_def)
  next
    case False
    with Cons.hyps have s: "s = 1" by simp
    then have "length xs = numel ss"
      using Cons.prems by (simp add: numel_def)
    from Cons.IH[OF this] False show ?thesis
      by (simp add: length_concat_replicate numel_def)
  qed
qed

lemma expandable_padded:
  assumes "expandable tgt src"
  shows "list_all2 (\<lambda>t s. s = t \<or> s = 1) tgt (replicate (length tgt - length src) 1 @ src)"
proof -
  let ?d = "length tgt - length src"
  have "list_all2 (\<lambda>t s. s = t \<or> s = 1) (take ?d tgt) (replicate ?d 1)"
    by (simp add: list_all2_conv_all_nth)
  moreover have "list_all2 (\<lambda>t s. s = t \<or> s = 1) (drop ?d tgt) src"
    using assms by (simp add: expandable_def)
  ultimately have "list_all2 (\<lambda>t s. s = t \<or> s = 1) (take ?d tgt @ drop ?d tgt) (replicate ?d 1 @ src)"
    by (rule list_all2_appendI)
  then show ?thesis by simp
qed

lemma expand_to_length:
  assumes "expand_to tgt r = Inr ys" "wf_tensor r"
  shows "length ys = numel tgt"
proof -
  from assms(1) have e: "expandable tgt (shape r)"
    and ys: "ys = expand_vals tgt (replicate (length tgt - length (shape r)) 1 @ shape r) (vals r)"
    by (auto simp: expand_to_def split: if_splits)
  have "length (vals r) = numel (replicate (length tgt - length (shape r)) 1 @ shape r)"
    using assms(2) by (simp add: wf_tensor_def numel_def)
  from expand_vals_length[OF expandable_padded[OF e] this] ys show ?thesis
    by simp
qed

lemma mult_Suc_le: "i' < i \<Longrightarrow> i' * n + n \<le> i * (n::nat)"
  by (metis Suc_leI mult_Suc mult_le_mono1 add.commute)

lemma slice_replace:
  assumes "length A = i * n" "length M = n" "length M0 = n" "i' \<noteq> i"
  shows "take n (drop (i' * n) (A @ M @ C)) = take n (drop (i' * n) (A @ M0 @ C))"
proof (cases "i' < i")
  case True
  from mult_Suc_le[OF this, of n] assms(1) show ?thesis by simp
next
  case False
  with assms(4) have "i < i'" by simp
  from mult_Suc_le[OF this, of n] assms(1,2,3) show ?thesis by simp
qed

lemma slice_hit:
  assumes "length A = i * n" "length M = n"
  shows "take n (drop (i * n) (A @ M @ C)) = M"
  using assms by simp

lemma split_at_slice: "xs = take (i * n) xs @ take n (drop (i * n) xs) @ drop (i * n + n) xs"
proof -
  have "take n (drop (i * n) xs) @ drop (i * n + n) xs = drop (i * n) xs"
    using append_take_drop_id[of n "drop (i * n) xs"] by (simp add: add.commute)
  then show ?thesis by simp
qed

lemma slice_iadd_spec:
  assumes step: "slice_iadd t i r = Inr t'" and wt: "wf_tensor t" and wr: "wf_tensor r"
  shows "shape t' = shape t \<and> wf_tensor t'
       \<and> (\<exists>ys. expand_to (tl (shape t)) r = Inr ys
              \<and> vals (index_first t' i) = map2 fadd (vals (index_first t i)) ys)
       \<and> (\<forall>i'. i' \<noteq> i \<longrightarrow> index_first t' i' = index_first t i')"
proof -
  from step obtain b c h w where sh: "shape t = [b, c, h, w]"
    by (auto simp: slice_iadd_def split: list.splits)
  let ?n = "numel [c, h, w]"
  from step sh obtain ys where ib: "i < b" and ys: "expand_to [c, h, w] r = Inr ys"
    and t': "t' = t\<lparr>vals := take (i * ?n) (vals t)
                     @ map2 fadd (take ?n (drop (i * ?n) (vals t))) ys
                     @ drop (i * ?n + ?n) (vals t)\<rparr>"
    by (auto simp: slice_iadd_def Let_def split: sum.splits if_splits)
  let ?A = "take (i * ?n) (vals t)"
  let ?Old = "take ?n (drop (i * ?n) (vals t))"
  let ?M = "map2 fadd ?Old ys"
  let ?C = "drop (i * ?n + ?n) (vals t)"
  have lv: "length (vals t) = b * ?n"
    using wt sh by (simp add: wf_tensor_def numel_def)
  have ly: "length ys = ?n"
    using expand_to_length[OF ys wr] .
  have le: "i * ?n + ?n \<le> b * ?n"
    using ib by (rule mult_Suc_le)
  have lA: "length ?A = i * ?n" using lv le by simp
  have lM0: "length ?Old = ?n" using lv le by simp
  have lM: "length ?M = ?n" using lM0 ly by simp
  have v: "vals t = ?A @ ?Old @ ?C" by (rule split_at_slice)
  have v': "vals t' = ?A @ ?M @ ?C" by (simp add: t')
  have s': "shape t' = shape t" by (simp add: t')
  have tl_sh: "tl (shape t) = [c, h, w]" by (simp add: sh)
  have lC: "length ?C = b * ?n - (i * ?n + ?n)"
    using lv by simp
  have "length (vals t') = length ?A + (length ?M + length ?C)"
    unfolding v' by (simp only: length_append)
  also have "\<dots> = b * ?n"
    unfolding lA lM lC using le by simp
  finally have "length (vals t') = length (vals t)"
    using lv by simp
  then have wf': "wf_tensor t'"
    using wt s' by (simp add: wf_tensor_def)
  have hit: "vals (index_first t' i) = ?M"
    unfolding index_first_def s' tl_sh using slice_hit[OF lA lM, of ?C] v' by simp
  have old: "vals (index_first t i) = ?Old"
    by (simp add: index_first_def tl_sh)
  have other: "\<And>i'. i' \<noteq> i \<Longrightarrow> index_first t' i' = index_first t i'"
  proof -
    fix i' assume ne: "i' \<noteq> i"
    have "take ?n (drop (i' * ?n) (vals t')) = take ?n (drop (i' * ?n) (?A @ ?Old @ ?C))"
      unfolding v' by (rule slice_replace[OF lA lM lM0 ne])
    also have "\<dots> = take ?n (drop (i' * ?n) (vals t))"
      using v by simp
    finally show "index_first t' i' = index_first t i'"
      by (simp add: index_first_def s' tl_sh)
  qed
  show ?thesis
    using s' wf' ys hit old other by (simp add: tl_sh)
qed

lemma add_real_masks_steps:
  assumes "add_real_masks L rd dev i n k0 ms = Inr ms'"
  shows "length ms' = length ms
       \<and> (\<forall>j < length ms. \<exists>sample rm.
             getitem L rd n = Inr sample \<and> py_index (snd sample) (int (k0 + j)) = Inr rm
             \<and> slice_iadd (ms ! j) i (to_device rm dev) = Inr (ms' ! j))"
  using assms
proof (induction ms arbitrary: k0 ms')
  case Nil
  then show ?case by simp
next
  case (Cons t ts)
  from Cons.prems obtain sample rm t' ts' where
    g: "getitem L rd n = Inr sample" and p: "py_index (snd sample) (int k0) = Inr rm"
    and s: "slice_iadd t i (to_device rm dev) = Inr t'"
    and r: "add_real_masks L rd dev i n (Suc k0) ts = Inr ts'"
    and ms': "ms' = t' # ts'"
    by (auto split: sum.splits)
  from Cons.IH[OF r] have len: "length ts' = length ts"
    and rest: "\<forall>j < length ts. \<exists>sample rm.
             getitem L rd n = Inr sample \<and> py_index (snd sample) (int (Suc k0 + j)) = Inr rm
             \<and> slice_iadd (ts ! j) i (to_device rm dev) = Inr (ts' ! j)"
    by simp_all
  have "\<forall>j < length (t # ts). \<exists>sample rm.
             getitem L rd n = Inr sample \<and> py_index (snd sample) (int (k0 + j)) = Inr rm
             \<and> slice_iadd ((t # ts) ! j) i (to_device rm dev) = Inr (ms' ! j)"
  proof (intro allI impI)
    fix j assume j: "j < length (t # ts)"
    show "\<exists>sample rm.
             getitem L rd n = Inr sample \<and> py_index (snd sample) (int (k0 + j)) = Inr rm
             \<and> slice_iadd ((t # ts) ! j) i (to_device rm dev) = Inr (ms' ! j)"
    proof (cases j)
      case 0
      then show ?thesis using g p s ms' by auto
    next
      case (Suc j')
      with j have "j' < length ts" by simp
      with rest obtain sample' rm' where
        "getitem L rd n = Inr sample'" "py_index (snd sample') (int (Suc k0 + j')) = Inr rm'"
        "slice_iadd (ts ! j') i (to_device rm' dev) = Inr (ts' ! j')"
        by blast
      then show ?thesis using Suc ms' by auto
    qed
  qed
  then show ?case using len ms' by simp
qed

lemma add_real_masks_slices:
  assumes run: "add_real_masks L rd dev i n 0 ms = Inr ms1"
    and wf: "list_all wf_tensor ms"
    and wfd: "\<And>n s. getitem L rd n = Inr s \<Longrightarrow> list_all wf_tensor (snd s)"
  shows "length ms1 = length ms \<and> list_all wf_tensor ms1
       \<and> (\<forall>k < length ms. shape (ms1 ! k) = shape (ms ! k)
            \<and> (\<exists>sample ys. getitem L rd n = Inr sample \<and> k < length (snd sample)
                  \<and> expand_to (tl (shape (ms ! k))) (to_device (snd sample ! k) dev) = Inr ys
                  \<and> vals (index_first (ms1 ! k) i) = map2 fadd (vals (index_first (ms ! k) i)) ys)
            \<and> (\<forall>i'. i' \<noteq> i \<longrightarrow> index_first (ms1 ! k) i' = index_first (ms ! k) i'))"
proof -
  from add_real_masks_steps[OF run] have len: "length ms1 = length ms"
    and steps: "\<forall>j < length ms. \<exists>sample rm.
             getitem L rd n = Inr sample \<and> py_index (snd sample) (int j) = Inr rm
             \<and> slice_iadd (ms ! j) i (to_device rm dev) = Inr (ms1 ! j)"
    by simp_all
  have each: "\<forall>k < length ms. wf_tensor (ms1 ! k) \<and> shape (ms1 ! k) = shape (ms ! k)
            \<and> (\<exists>sample ys. getitem L rd n = Inr sample \<and> k < length (snd sample)
                  \<and> expand_to (tl (shape (ms ! k))) (to_device (snd sample ! k) dev) = Inr ys
                  \<and> vals (index_first (ms1 ! k) i) = map2 fadd (vals (index_first (ms ! k) i)) ys)
            \<and> (\<forall>i'. i' \<noteq> i \<longrightarrow> index_first (ms1 ! k) i' = index_first (ms ! k) i')"
  proof (intro allI impI)
    fix k assume k: "k < length ms"
    with steps obtain sample rm where g: "getitem L rd n = Inr sample"
      and p: "py_index (snd sample) (int k) = Inr rm"
      and s: "slice_iadd (ms ! k) i (to_device rm dev) = Inr (ms1 ! k)"
      by blast
    from py_index_nat_Inr[OF p] have kk: "k < length (snd sample)" and rm: "rm = snd sample ! k"
      by simp_all
    from wfd[OF g] kk rm have "wf_tensor rm"
      by (simp add: list_all_length)
    then have wr: "wf_tensor (to_device rm dev)"
      by (simp add: to_device_def)
    from wf k have wt: "wf_tensor (ms ! k)"
      by (simp add: list_all_length)
    from slice_iadd_spec[OF s wt wr] g kk rm
    show "wf_tensor (ms1 ! k) \<and> shape (ms1 ! k) = shape (ms ! k)
            \<and> (\<exists>sample ys. getitem L rd n = Inr sample \<and> k < length (snd sample)
                  \<and> expand_to (tl (shape (ms ! k))) (to_device (snd sample ! k) dev) = Inr ys
                  \<and> vals (index_first (ms1 ! k) i) = map2 fadd (vals (index_first (ms ! k) i)) ys)
            \<and> (\<forall>i'. i' \<noteq> i \<longrightarrow> index_first (ms1 ! k) i' = index_first (ms ! k) i')"
      by auto
  qed
  then have "list_all wf_tensor ms1"
    using len by (simp add: list_all_length)
  with len each show ?thesis by simp
qed

lemma added_then_kept:
  "added_at L rd dev n i ms ms1 \<Longrightarrow> kept_at i ms1 ms' \<Longrightarrow> length ms1 = length ms
     \<Longrightarrow> added_at L rd dev n i ms ms'"
  by (simp add: added_at_def kept_at_def)

lemma kept_then_added:
  "kept_at i ms ms1 \<Longrightarrow> added_at L rd dev n i ms1 ms' \<Longrightarrow> length ms1 = length ms
     \<Longrightarrow> \<forall>k < length ms. shape (ms1 ! k) = shape (ms ! k)
     \<Longrightarrow> added_at L rd dev n i ms ms'"
  by (simp add: added_at_def kept_at_def)

lemma kept_trans:
  "kept_at i ms ms1 \<Longrightarrow> kept_at i ms1 ms' \<Longrightarrow> length ms1 = length ms \<Longrightarrow> kept_at i ms ms'"
  by (simp add: kept_at_def)

lemma sample_loop_spec:
  assumes run: "sample_loop L rd dev pick is ms = Inr ms'"
    and dist: "distinct is"
    and wf: "list_all wf_tensor ms"
    and wfd: "\<And>n s. getitem L rd n = Inr s \<Longrightarrow> list_all wf_tensor (snd s)"
  shows "length ms' = length ms \<and> list_all wf_tensor ms'
       \<and> (\<forall>k < length ms. shape (ms' ! k) = shape (ms ! k))
       \<and> (\<forall>i \<in> set is. \<exists>n. randint (dataset_len rd) (pick i) = Inr n \<and> added_at L rd dev n i ms ms')
       \<and> (\<forall>i. i \<notin> set is \<longrightarrow> kept_at i ms ms')"
  using run dist wf
proof (induction "is" arbitrary: ms)
  case Nil
  then show ?case by (simp add: kept_at_def)
next
  case (Cons i rest)
  from Cons.prems(1) obtain n ms1 where n: "randint (dataset_len rd) (pick i) = Inr n"
    and inner: "add_real_masks L rd dev i n 0 ms = Inr ms1"
    and outer: "sample_loop L rd dev pick rest ms1 = Inr ms'"
    by (auto split: sum.splits)
  from add_real_masks_slices[OF inner Cons.prems(3) wfd]
  have l1: "length ms1 = length ms" and w1: "list_all wf_tensor ms1"
    and s1: "\<forall>k < length ms. shape (ms1 ! k) = shape (ms ! k)"
    and a1: "added_at L rd dev n i ms ms1"
    and k1: "\<And>i'. i' \<noteq> i \<Longrightarrow> kept_at i' ms ms1"
    by (simp_all add: added_at_def kept_at_def)
  from Cons.prems(2) have d: "distinct rest" and ni: "i \<notin> set rest"
    by simp_all
  from Cons.IH[OF outer d w1]
  have l2: "length ms' = length ms1" and w2: "list_all wf_tensor ms'"
    and s2: "\<forall>k < length ms1. shape (ms' ! k) = shape (ms1 ! k)"
    and a2: "\<forall>i2 \<in> set rest. \<exists>n2. randint (dataset_len rd) (pick i2) = Inr n2
                \<and> added_at L rd dev n2 i2 ms1 ms'"
    and k2: "\<And>i3. i3 \<notin> set rest \<Longrightarrow> kept_at i3 ms1 ms'"
    by simp_all
  have here: "added_at L rd dev n i ms ms'"
    using a1 k2[OF ni] l1 by (rule added_then_kept)
  have later: "\<forall>i2 \<in> set rest. \<exists>n2. randint (dataset_len rd) (pick i2) = Inr n2
                \<and> added_at L rd dev n2 i2 ms ms'"
  proof
    fix i2 assume i2: "i2 \<in> set rest"
    with a2 obtain n2 where r2: "randint (dataset_len rd) (pick i2) = Inr n2"
      and ad: "added_at L rd dev n2 i2 ms1 ms'"
      by blast
    from i2 ni have "i2 \<noteq> i" by auto
    from kept_then_added[OF k1[OF this] ad l1 s1] r2
    show "\<exists>n2. randint (dataset_len rd) (pick i2) = Inr n2 \<and> added_at L rd dev n2 i2 ms ms'"
      by blast
  qed
  have others: "\<forall>i3. i3 \<notin> set (i # rest) \<longrightarrow> kept_at i3 ms ms'"
  proof (intro allI impI)
    fix i3 assume "i3 \<notin> set (i # rest)"
    then have "i3 \<noteq> i" "i3 \<notin> set rest" by simp_all
    from kept_trans[OF k1[OF this(1)] k2[OF this(2)] l1] show "kept_at i3 ms ms'" .
  qed
  show ?case
    using l1 l2 w2 s1 s2 n here later others by simp
qed

lemma noise_masks_nth:
  "k < length sizes \<Longrightarrow>
     noise_masks batch_size sizes noise_level randn_draw ! k
       = mul_scalar (torch_randn [batch_size, 1, sizes ! k, sizes ! k] (randn_draw k)) noise_level"
  by (simp add: noise_masks_def nth_enumerate_eq)

lemma noise_masks_wf: "list_all wf_tensor (noise_masks batch_size sizes noise_level randn_draw)"
  by (simp add: noise_masks_def list_all_iff wf_tensor_def mul_scalar_def torch_randn_def
      split: prod.splits)

lemma randint_range: "randint high raw = Inr n \<Longrightarrow> 0 \<le> n \<and> n < high"
  by (auto simp: randint_def split: if_splits)

lemma randint_any: "0 \<le> n \<Longrightarrow> n < high \<Longrightarrow> randint high (nat n) = Inr n"
  by (simp add: randint_def)

subsection \<open>The example batch\<close>

lemma demo_getitem: "getitem demo_library demo_eager_ds 0 = Inr (rgb_image, [empty_mask2])"
  by (simp add: getitem_def py_index_def demo_eager_ds_def)

lemma demo_noise:
  "noise_masks 2 [2] (1 / 5) (\<lambda>k j. 5) = [\<lparr>shape = [2, 1, 2, 2], vals = [Fin 1, Fin 1, Fin 1, Fin 1, Fin 1, Fin 1, Fin 1, Fin 1]\<rparr>]"
  unfolding noise_masks_def torch_randn_def mul_scalar_def numel_def
  by (simp add: eval_nat_numeral upt_rec)

lemma demo_expand:
  "expand_to [1, 2, 2] (to_device empty_mask2 dev) = Inr [Fin (- 1), Fin (- 1), Fin (- 1), Fin (- 1)]"
  "expand_to [Suc 0, 2, 2] (to_device empty_mask2 dev) = Inr [Fin (- 1), Fin (- 1), Fin (- 1), Fin (- 1)]"
  unfolding expand_to_def to_device_def empty_mask2_def expandable_def
  by (simp_all add: chunks_def numel_def eval_nat_numeral upt_rec)

lemma demo_slice_add0:
  "slice_iadd \<lparr>shape = [2, 1, 2, 2], vals = [Fin 1, Fin 1, Fin 1, Fin 1, Fin 1, Fin 1, Fin 1, Fin 1]\<rparr> 0 (to_device empty_mask2 dev)
     = Inr \<lparr>shape = [2, 1, 2, 2], vals = [Fin 0, Fin 0, Fin 0, Fin 0, Fin 1, Fin 1, Fin 1, Fin 1]\<rparr>"
  unfolding slice_iadd_def
  by (simp add: demo_expand numel_def)

lemma demo_slice_add1:
  "slice_iadd \<lparr>shape = [2, 1, 2, 2], vals = [Fin 0, Fin 0, Fin 0, Fin 0, Fin 1, Fin 1, Fin 1, Fin 1]\<rparr> 1 (to_device empty_mask2 dev)
     = Inr \<lparr>shape = [2, 1, 2, 2], vals = [Fin 0, Fin 0, Fin 0, Fin 0, Fin 0, Fin 0, Fin 0, Fin 0]\<rparr>"
  unfolding slice_iadd_def
  by (simp add: demo_expand numel_def)

lemma demo_sample_mask:
  "sample_mask demo_library 2 [2] demo_eager_ds (1 / 5) None (\<lambda>k j. 5) (\<lambda>i. 7) = Inr demo_sampled"
proof -
  have len: "dataset_len demo_eager_ds = 1"
    by (simp add: dataset_len_def demo_eager_ds_def)
  have r: "randint 1 7 = Inr 0"
    by (simp add: randint_def)
  have p: "py_index [empty_mask2] 0 = Inr empty_mask2"
    by (simp add: py_index_def)
  have u: "[0..<2] = [0, 1]"
    by (simp add: upt_rec numeral_2_eq_2)
  show ?thesis
    unfolding sample_mask_def Let_def demo_noise u
    by (simp add: len r demo_getitem p demo_slice_add0 demo_slice_add1 demo_sampled_def
        del: One_nat_def)
qed

lemma demo_wf_samples:
  "\<forall>n s. getitem demo_library demo_eager_ds n = Inr s \<longrightarrow> list_all wf_tensor (snd s)"
  by (auto simp: getitem_def py_index_def demo_eager_ds_def empty_mask2_def wf_tensor_def
      numel_def split: if_splits)

subsection \<open>The returned masks\<close>

text \<open>
  C5. For every batch element \<open>i\<close> the sampler draws one index \<open>n\<close> of the dataset, an index
  from 0 up to its length, and for every requested resolution \<open>k\<close> slice \<open>i\<close> of the \<open>k\<close>-th
  returned tensor is slice \<open>i\<close> of the \<open>k\<close>-th noise tensor (the draw of \<^verbatim>\<open>torch.randn\<close> times
  the noise level) plus the \<open>k\<close>-th mask of example \<open>n\<close>, expanded to the shape \<open>(1, size, size)\<close>
  of the slice as torch's \<^verbatim>\<open>+=\<close> does: the same \<open>n\<close> for all resolutions. The draws are
  inputs of the model, so that the distribution of \<open>n\<close> is not part of the statement;
  \<open>randint_any\<close> says that every index of the range can be drawn. The masks the dataset
  returns are taken to be well-formed tensors, as every torch tensor is.
\<close>

theorem sample_mask_adds_real_masks:
  assumes run: "sample_mask L batch_size sizes realdata noise_level dev randn_draw randint_draw
                  = Inr masks"
    and wfd: "\<forall>n s. getitem L realdata n = Inr s \<longrightarrow> list_all wf_tensor (snd s)"
    and i: "i < batch_size"
  shows "length masks = length sizes
       \<and> (\<exists>n. randint (dataset_len realdata) (randint_draw i) = Inr n
              \<and> 0 \<le> n \<and> n < dataset_len realdata
              \<and> (\<forall>k < length sizes. \<exists>sample ys.
                    getitem L realdata n = Inr sample \<and> k < length (snd sample)
                  \<and> expand_to [1, sizes ! k, sizes ! k] (to_device (snd sample ! k) dev) = Inr ys
                  \<and> shape (masks ! k) = [batch_size, 1, sizes ! k, sizes ! k]
                  \<and> vals (index_first (masks ! k) i)
                      = map2 fadd
                          (vals (index_first
                             (mul_scalar (torch_randn [batch_size, 1, sizes ! k, sizes ! k]
                                (randn_draw k)) noise_level) i))
                          ys))"
proof -
  let ?ms = "noise_masks batch_size sizes noise_level randn_draw"
  from run have loop: "sample_loop L realdata dev randint_draw [0..<batch_size] ?ms = Inr masks"
    by (simp add: sample_mask_def)
  have len0: "length ?ms = length sizes"
    by (simp add: noise_masks_def)
  from wfd have wfd': "\<And>n s. getitem L realdata n = Inr s \<Longrightarrow> list_all wf_tensor (snd s)"
    by blast
  from sample_loop_spec[OF loop distinct_upt noise_masks_wf wfd']
  have len: "length masks = length ?ms"
    and shp: "\<forall>k < length ?ms. shape (masks ! k) = shape (?ms ! k)"
    and add: "\<forall>i \<in> set [0..<batch_size]. \<exists>n. randint (dataset_len realdata) (randint_draw i) = Inr n
                \<and> added_at L realdata dev n i ?ms masks"
    by simp_all
  from i have "i \<in> set [0..<batch_size]" by simp
  with add obtain n where n: "randint (dataset_len realdata) (randint_draw i) = Inr n"
    and ad: "added_at L realdata dev n i ?ms masks"
    by blast
  have "\<forall>k < length sizes. \<exists>sample ys.
                    getitem L realdata n = Inr sample \<and> k < length (snd sample)
                  \<and> expand_to [1, sizes ! k, sizes ! k] (to_device (snd sample ! k) dev) = Inr ys
                  \<and> shape (masks ! k) = [batch_size, 1, sizes ! k, sizes ! k]
                  \<and> vals (index_first (masks ! k) i)
                      = map2 fadd
                          (vals (index_first
                             (mul_scalar (torch_randn [batch_size, 1, sizes ! k, sizes ! k]
                                (randn_draw k)) noise_level) i))
                          ys"
  proof (intro allI impI)
    fix k assume k: "k < length sizes"
    have nth: "?ms ! k = mul_scalar (torch_randn [batch_size, 1, sizes ! k, sizes ! k]
                 (randn_draw k)) noise_level"
      using k by (rule noise_masks_nth)
    have s0: "shape (?ms ! k) = [batch_size, 1, sizes ! k, sizes ! k]"
      by (simp add: nth mul_scalar_def torch_randn_def)
    from ad k len0 obtain sample ys where
      "getitem L realdata n = Inr sample" "k < length (snd sample)"
      "expand_to (tl (shape (?ms ! k))) (to_device (snd sample ! k) dev) = Inr ys"
      "vals (index_first (masks ! k) i) = map2 fadd (vals (index_first (?ms ! k) i)) ys"
      unfolding added_at_def by auto
    moreover have "shape (masks ! k) = [batch_size, 1, sizes ! k, sizes ! k]"
      using shp k len0 s0 by simp
    ultimately show "\<exists>sample ys.
                    getitem L realdata n = Inr sample \<and> k < length (snd sample)
                  \<and> expand_to [1, sizes ! k, sizes ! k] (to_device (snd sample ! k) dev) = Inr ys
                  \<and> shape (masks ! k) = [batch_size, 1, sizes ! k, sizes ! k]
                  \<and> vals (index_first (masks ! k) i)
                      = map2 fadd
                          (vals (index_first
                             (mul_scalar (torch_randn [batch_size, 1, sizes ! k, sizes ! k]
                                (randn_draw k)) noise_level) i))
                          ys"
      unfolding s0 nth[symmetric] by (auto simp: s0)
  qed
  with n randint_range[OF n] len len0 show ?thesis
    by auto
qed

theorem sample_mask_adds_real_masks_witness:
  "sample_mask demo_library 2 [2] demo_eager_ds (1 / 5) None (\<lambda>k j. 5) (\<lambda>i. 7) = Inr demo_sampled
   \<and> (1::nat) < 2
   \<and> length demo_sampled = length [2 :: nat]
   \<and> (\<exists>n. randint (dataset_len demo_eager_ds) 7 = Inr n
          \<and> 0 \<le> n \<and> n < dataset_len demo_eager_ds
          \<and> (\<forall>k < length [2 :: nat]. \<exists>sample ys.
                getitem demo_library demo_eager_ds n = Inr sample \<and> k < length (snd sample)
              \<and> expand_to [1, [2] ! k, [2] ! k] (to_device (snd sample ! k) None) = Inr ys
              \<and> shape (demo_sampled ! k) = [2, 1, [2] ! k, [2] ! k]
              \<and> vals (index_first (demo_sampled ! k) 1)
                  = map2 fadd
                      (vals (index_first
                         (mul_scalar (torch_randn [2, 1, [2] ! k, [2] ! k] ((\<lambda>k j. 5) k)) (1 / 5)) 1))
                      ys))"
proof -
  have i: "(1::nat) < 2" by simp
  from sample_mask_adds_real_masks[OF demo_sample_mask demo_wf_samples i] demo_sample_mask i
  show ?thesis by (intro conjI) simp_all
qed

end
